theory Spec2Isabelle
  imports Complex_Main "HOL-Library.AList"
begin

section \<open>JavaScript values\<close>

text \<open>
  Field values are the values react-hook-form stores for a field: \<open>undefined\<close>,
  \<open>null\<close>, a string, a number, a boolean or an array (of strings for a multi-select, of
  file objects for a dropzone). Arrays and file objects carry the identity of the object,
  because \<open>===\<close> compares them by reference. A number stands for the real it denotes;
  the source only compares numbers, so rounding never enters. \<open>NaN\<close> and the infinities
  are left out. Strings are lists of characters and are read as ASCII text.
\<close>

datatype jsval =
    Undefined
  | Null
  | Str string
  | Num real
  | Bool bool
  | Arr nat "jsval list"
  | Obj nat

text \<open>The type \<open>string | number | boolean\<close> of the constants a schema may carry.\<close>

datatype prim = PStr string | PNum real | PBool bool

text \<open>
  What the source takes from the JavaScript runtime and cannot be read off the repository:
  \<open>String(n)\<close> on a number, \<open>new RegExp(p)\<close> (\<open>None\<close> when the pattern is rejected with
  a SyntaxError, otherwise the function \<open>test\<close> of the regular expression) and
  \<open>new Date(v)\<close> (\<open>None\<close> for an invalid date, otherwise its time value).
\<close>

record js_runtime =
  numberToString :: "real \<Rightarrow> string"
  regExp :: "string \<Rightarrow> (string \<Rightarrow> bool) option"
  newDate :: "jsval \<Rightarrow> real option"

text \<open>An optional property that was left out reads as \<open>undefined\<close>.\<close>

fun ofPrim :: "prim option \<Rightarrow> jsval" where
  "ofPrim None = Undefined"
| "ofPrim (Some (PStr s)) = Str s"
| "ofPrim (Some (PNum n)) = Num n"
| "ofPrim (Some (PBool b)) = Bool b"

text \<open>\<open>obj[key]\<close> on an object of values (the values of the form, the parsed data): a key
  that is not there reads as \<open>undefined\<close>. These objects are finite maps on their own
  keys, the names of the fields; field names that a plain object inherits (such as
  \<open>toString\<close>) are not considered.\<close>

definition getProp :: "(string \<rightharpoonup> jsval) \<Rightarrow> string \<Rightarrow> jsval" where
  "getProp obj key = (case obj key of None \<Rightarrow> Undefined | Some v \<Rightarrow> v)"

text \<open>A property key that is \<open>undefined\<close> is converted to the string \<open>"undefined"\<close>.\<close>

definition propertyKey :: "string option \<Rightarrow> string" where
  "propertyKey k = (case k of None \<Rightarrow> ''undefined'' | Some s \<Rightarrow> s)"

text \<open>\<open>a === b\<close>: by value on primitives, by reference on arrays and objects.\<close>

definition strictEquals :: "jsval \<Rightarrow> jsval \<Rightarrow> bool" where
  "strictEquals a b =
     (case a of
        Arr r xs \<Rightarrow> (case b of Arr r' ys \<Rightarrow> r = r' | _ \<Rightarrow> False)
      | _ \<Rightarrow> a = b)"

text \<open>\<open>!v\<close>: the values that count as false.\<close>

fun falsy :: "jsval \<Rightarrow> bool" where
  "falsy Undefined = True"
| "falsy Null = True"
| "falsy (Str s) = (s = [])"
| "falsy (Num n) = (n = 0)"
| "falsy (Bool b) = (\<not> b)"
| "falsy (Arr r xs) = False"
| "falsy (Obj r) = False"

text \<open>\<open>xs.includes(v)\<close> on an array (without \<open>NaN\<close>, SameValueZero is \<open>===\<close>).\<close>

definition arrayIncludes :: "jsval list \<Rightarrow> jsval \<Rightarrow> bool" where
  "arrayIncludes xs v = list_ex (\<lambda>x. strictEquals x v) xs"

text \<open>\<open>s.includes(sub)\<close> on a string: \<open>sub\<close> occurs in \<open>s\<close> as a contiguous block.\<close>

fun stringIncludes :: "string \<Rightarrow> string \<Rightarrow> bool" where
  "stringIncludes [] sub = (sub = [])"
| "stringIncludes (c # t) sub = (take (length sub) (c # t) = sub \<or> stringIncludes t sub)"

text \<open>\<open>String(v)\<close> on a schema constant.\<close>

fun toString :: "js_runtime \<Rightarrow> prim option \<Rightarrow> string" where
  "toString rt None = ''undefined''"
| "toString rt (Some (PStr s)) = s"
| "toString rt (Some (PNum n)) = numberToString rt n"
| "toString rt (Some (PBool b)) = (if b then ''true'' else ''false'')"

section \<open>The schema\<close>

text \<open>
  \<open>ConditionalLogic\<close> as the interface declares it. Every property may be missing in the
  JSON document, \<open>field\<close> included; \<open>cvalue\<close> is the property \<open>value\<close>.
\<close>

datatype ConditionalLogic = ConditionalLogic
  (field: "string option")
  (operator: "string option")
  (cvalue: "prim option")
  (equals: "prim option")
  (conditions: "ConditionalLogic list option")
  (logicalOperator: "string option")

section \<open>The condition evaluator\<close>

text \<open>
  \<open>evaluateCondition\<close>. The nested branch is taken only when \<open>conditions\<close> is present and
  not empty; everything else is evaluated as a leaf: first the deprecated \<open>equals\<close>, then
  the \<open>switch\<close> over \<open>operator\<close>, whose default is equality with \<open>value\<close>.
\<close>

fun evaluateCondition :: "js_runtime \<Rightarrow> ConditionalLogic \<Rightarrow> (string \<rightharpoonup> jsval) \<Rightarrow> bool" where
  "evaluateCondition rt (ConditionalLogic fld op val eq conds lop) formValues =
     (let fieldValue = getProp formValues (propertyKey fld) in
      case conds of
        Some (c # cs) \<Rightarrow>
          (let results = map (\<lambda>c. evaluateCondition rt c formValues) (c # cs) in
           if lop = Some ''or'' then list_ex (\<lambda>result. result) results
           else list_all (\<lambda>result. result) results)
      | _ \<Rightarrow>
          if eq \<noteq> None then strictEquals fieldValue (ofPrim eq)
          else if op = Some ''equals'' then strictEquals fieldValue (ofPrim val)
          else if op = Some ''notEquals'' then \<not> strictEquals fieldValue (ofPrim val)
          else if op = Some ''greaterThan'' then
            (case (fieldValue, val) of (Num a, Some (PNum b)) \<Rightarrow> a > b | _ \<Rightarrow> False)
          else if op = Some ''lessThan'' then
            (case (fieldValue, val) of (Num a, Some (PNum b)) \<Rightarrow> a < b | _ \<Rightarrow> False)
          else if op = Some ''contains'' then
            (case fieldValue of
               Arr r xs \<Rightarrow> arrayIncludes xs (ofPrim val)
             | Str s \<Rightarrow> stringIncludes s (toString rt val)
             | _ \<Rightarrow> False)
          else if op = Some ''notContains'' then
            (case fieldValue of
               Arr r xs \<Rightarrow> \<not> arrayIncludes xs (ofPrim val)
             | Str s \<Rightarrow> \<not> stringIncludes s (toString rt val)
             | _ \<Rightarrow> False)
          else if op = Some ''isEmpty'' then
            (fieldValue = Undefined \<or> fieldValue = Null \<or> fieldValue = Str [] \<or>
             (case fieldValue of Arr r xs \<Rightarrow> length xs = 0 | _ \<Rightarrow> False))
          else if op = Some ''isNotEmpty'' then
            (fieldValue \<noteq> Undefined \<and> fieldValue \<noteq> Null \<and> fieldValue \<noteq> Str [] \<and>
             (case fieldValue of Arr r xs \<Rightarrow> length xs > 0 | _ \<Rightarrow> True))
          else strictEquals fieldValue (ofPrim val))"


text \<open>
  \<open>ValidationRules\<close>, \<open>FormField\<close>, \<open>FormSection\<close> and \<open>FormSchema\<close>, with the
  properties the engine reads; labels, placeholders and layout are display data. The
  properties \<open>min\<close> and \<open>max\<close> are \<open>min_value\<close> and \<open>max_value\<close>, and the three
  properties called \<open>fields\<close> and the two called \<open>name\<close> are told apart by a prefix.
\<close>

record CustomValidator =
  cv_fields :: "string list"
  validator :: string

record AsyncValidator =
  av_name :: string
  params :: "string list option"

record ValidationRules =
  required :: bool
  min_value :: "real option"
  max_value :: "real option"
  minLength :: "real option"
  maxLength :: "real option"
  pattern :: "string option"
  errorMessage :: "string option"
  customValidator :: "CustomValidator option"
  asyncValidator :: "AsyncValidator option"

record FormField =
  name :: string
  type :: string
  validation :: "ValidationRules option"
  conditional :: "ConditionalLogic option"

record FormSection =
  title :: string
  section_fields :: "FormField list"

record FormSchema =
  formTitle :: string
  formDescription :: string
  schema_fields :: "FormField list option"
  sections :: "FormSection list option"

text \<open>\<open>getAllFields\<close>: the flat list if there is one (an empty array is truthy), else the
  sections flattened.\<close>

definition getAllFields :: "FormSchema \<Rightarrow> FormField list" where
  "getAllFields schema =
     (case schema_fields schema of
        Some fs \<Rightarrow> fs
      | None \<Rightarrow>
          (case sections schema of
             Some secs \<Rightarrow> concat (map section_fields secs)
           | None \<Rightarrow> []))"

section \<open>The validation library\<close>

text \<open>
  The ruleset is built from combinators of the zod library. This section models the
  combinators the source uses, as version 3 of the library behaves: a schema parses a value
  under a path and reports issues; a failed type check aborts the schema (refinements
  around it do not run), a failed check or refinement leaves it dirty (later refinements
  still run); \<open>optional\<close> accepts \<open>undefined\<close> without looking further; an object parses
  every key of its shape, drops the other keys, and is aborted when one key is.

  A run is recorded as a list of events in the order in which they happen: the issues
  raised, the calls of the registered validators and what is written to the console.
  Fields are taken one after the other, in the order of the shape.
\<close>

datatype path_elem = Key string | Idx nat

datatype issue_code = invalid_type | too_small | too_big | invalid_string | custom

text \<open>The message is \<open>None\<close> where the library supplies its own text.\<close>

record issue =
  code :: issue_code
  path :: "path_elem list"
  message :: "string option"

datatype event =
    Issue issue
  | AsyncCall string "string list"
  | CustomCall string "string list"
  | ConsoleWarn string
  | ConsoleError string

text \<open>
  The status of a parse is valid, dirty or aborted; \<open>Thrown\<close> stands for a parse that
  did not return because an exception left it (the promise of \<open>parseAsync\<close> is rejected
  with something that is not a validation error).
\<close>

datatype status = Valid | Dirty | Aborted | Thrown

datatype string_check = SMin real string | SMax real string | SRegex "string \<Rightarrow> bool" string

datatype number_check = NMin real string | NMax real string

datatype ztype =
    ZString "string_check list"
  | ZNumber "number_check list"
  | ZBoolean
  | ZAny
  | ZArray ztype
  | ZOptional ztype
  | ZEffects ztype "jsval \<Rightarrow> event list \<times> bool" string

definition invalidType :: "path_elem list \<Rightarrow> status \<times> event list" where
  "invalidType p = (Aborted, [Issue \<lparr>code = invalid_type, path = p, message = None\<rparr>])"

fun stringCheck :: "path_elem list \<Rightarrow> string \<Rightarrow> string_check \<Rightarrow> event list" where
  "stringCheck p s (SMin n msg) =
     (if real (length s) < n then [Issue \<lparr>code = too_small, path = p, message = Some msg\<rparr>] else [])"
| "stringCheck p s (SMax n msg) =
     (if real (length s) > n then [Issue \<lparr>code = too_big, path = p, message = Some msg\<rparr>] else [])"
| "stringCheck p s (SRegex test msg) =
     (if \<not> test s then [Issue \<lparr>code = invalid_string, path = p, message = Some msg\<rparr>] else [])"

fun numberCheck :: "path_elem list \<Rightarrow> real \<Rightarrow> number_check \<Rightarrow> event list" where
  "numberCheck p x (NMin n msg) =
     (if x < n then [Issue \<lparr>code = too_small, path = p, message = Some msg\<rparr>] else [])"
| "numberCheck p x (NMax n msg) =
     (if x > n then [Issue \<lparr>code = too_big, path = p, message = Some msg\<rparr>] else [])"

definition mergeStatus :: "status list \<Rightarrow> status" where
  "mergeStatus sts =
     (if Thrown \<in> set sts then Thrown
      else if Aborted \<in> set sts then Aborted
      else if Dirty \<in> set sts then Dirty
      else Valid)"

fun parseType :: "ztype \<Rightarrow> path_elem list \<Rightarrow> jsval \<Rightarrow> status \<times> event list" where
  "parseType (ZString checks) p v =
     (case v of
        Str s \<Rightarrow>
          (let es = concat (map (stringCheck p s) checks) in (if es = [] then Valid else Dirty, es))
      | _ \<Rightarrow> invalidType p)"
| "parseType (ZNumber checks) p v =
     (case v of
        Num x \<Rightarrow>
          (let es = concat (map (numberCheck p x) checks) in (if es = [] then Valid else Dirty, es))
      | _ \<Rightarrow> invalidType p)"
| "parseType ZBoolean p v = (case v of Bool b \<Rightarrow> (Valid, []) | _ \<Rightarrow> invalidType p)"
| "parseType ZAny p v = (Valid, [])"
| "parseType (ZArray t) p v =
     (case v of
        Arr r xs \<Rightarrow>
          (let results = map (\<lambda>(i, x). parseType t (p @ [Idx i]) x) (zip [0..<length xs] xs) in
           (mergeStatus (map fst results), concat (map snd results)))
      | _ \<Rightarrow> invalidType p)"
| "parseType (ZOptional t) p v = (if v = Undefined then (Valid, []) else parseType t p v)"
| "parseType (ZEffects t check msg) p v =
     (case parseType t p v of
        (Aborted, es) \<Rightarrow> (Aborted, es)
      | (st, es) \<Rightarrow>
          (case check v of
             (ces, ok) \<Rightarrow>
               if ok then (st, es @ ces)
               else (Dirty, es @ ces @ [Issue \<lparr>code = custom, path = p, message = Some msg\<rparr>])))"

text \<open>
  An object schema: its shape, in the order of the keys, and the refinement put on the
  whole object, if any: the check, its message and the path given with it, which is
  appended to the path of the object (the empty path, at the top). The check answers
  \<open>None\<close> when it throws.
\<close>

record zobject =
  shape :: "(string \<times> ztype) list"
  refinement ::
    "(((string \<rightharpoonup> jsval) \<Rightarrow> event list \<times> bool option) \<times> string \<times> path_elem list) option"

text \<open>The parsed object keeps the keys of the shape that the data has.\<close>

definition parsedObject :: "(string \<times> ztype) list \<Rightarrow> (string \<rightharpoonup> jsval) \<Rightarrow> (string \<rightharpoonup> jsval)" where
  "parsedObject shp data = data |` set (map fst shp)"

definition parseShape :: "(string \<times> ztype) list \<Rightarrow> (string \<rightharpoonup> jsval) \<Rightarrow> status \<times> event list" where
  "parseShape shp data =
     (let results = map (\<lambda>(k, t). parseType t [Key k] (getProp data k)) shp in
      (mergeStatus (map fst results), concat (map snd results)))"

definition parseAsync :: "zobject \<Rightarrow> (string \<rightharpoonup> jsval) \<Rightarrow> status \<times> event list" where
  "parseAsync schema data =
     (case parseShape (shape schema) data of
        (Aborted, es) \<Rightarrow> (Aborted, es)
      | (st, es) \<Rightarrow>
          (case refinement schema of
             None \<Rightarrow> (st, es)
           | Some (check, msg, p) \<Rightarrow>
               (case check (parsedObject (shape schema) data) of
                  (ces, None) \<Rightarrow> (Thrown, es @ ces)
                | (ces, Some ok) \<Rightarrow>
                    if ok then (st, es @ ces)
                    else (Dirty, es @ ces @ [Issue \<lparr>code = custom, path = p, message = Some msg\<rparr>]))))"

section \<open>The validator registries\<close>

text \<open>
  An asynchronous validator takes the arguments of the call and resolves to a value that
  is read as a boolean; \<open>None\<close> is a rejected promise (the validator threw). The only
  caller hands it strings. A custom validator is called with the parsed object and a list
  of field names; it returns a value that is read as a boolean, or throws (\<open>None\<close>).
\<close>

type_synonym async_validator = "string list \<Rightarrow> bool option"

type_synonym custom_validator = "(string \<rightharpoonup> jsval) \<Rightarrow> string list \<Rightarrow> bool option"

text \<open>
  Both registries are object literals, and \<open>registry[name]\<close> also finds what every object
  inherits from \<open>Object.prototype\<close>. What is found is taken for a validator and called as
  a plain function, so that \<open>this\<close> is \<open>undefined\<close>:
  \<^item> \<open>constructor\<close> (the function \<open>Object\<close>) returns an object and \<open>toString\<close> returns the
    string \<open>"[object Undefined]"\<close>; both count as true;
  \<^item> \<open>isPrototypeOf\<close> returns false when its argument is not an object, and otherwise
    converts \<open>this\<close> to an object, which throws a TypeError;
  \<^item> \<open>hasOwnProperty\<close>, \<open>valueOf\<close>, \<open>toLocaleString\<close>, \<open>propertyIsEnumerable\<close> and the four
    getter and setter helpers convert \<open>this\<close> to an object and throw a TypeError;
  \<^item> \<open>__proto__\<close> reads as the prototype itself, which is not a function, so that the call
    throws a TypeError.
\<close>

definition inheritedThrowing :: "string list" where
  "inheritedThrowing =
     [''hasOwnProperty'', ''valueOf'', ''toLocaleString'', ''propertyIsEnumerable'',
      ''__defineGetter__'', ''__defineSetter__'', ''__lookupGetter__'', ''__lookupSetter__'',
      ''__proto__'']"

text \<open>The first argument of an asynchronous validator is a string, not an object.\<close>

definition inheritedAsync :: "string \<rightharpoonup> async_validator" where
  "inheritedAsync nm =
     (if nm = ''constructor'' \<or> nm = ''toString'' then Some (\<lambda>args. Some True)
      else if nm = ''isPrototypeOf'' then Some (\<lambda>args. Some False)
      else if nm \<in> set inheritedThrowing then Some (\<lambda>args. None)
      else None)"

text \<open>The first argument of a custom validator is the parsed object.\<close>

definition inheritedCustom :: "string \<rightharpoonup> custom_validator" where
  "inheritedCustom nm =
     (if nm = ''constructor'' \<or> nm = ''toString'' then Some (\<lambda>data names. Some True)
      else if nm = ''isPrototypeOf'' then Some (\<lambda>data names. None)
      else if nm \<in> set inheritedThrowing then Some (\<lambda>data names. None)
      else None)"

definition passwordsMatch :: "(string \<rightharpoonup> jsval) \<Rightarrow> string list \<Rightarrow> bool" where
  "passwordsMatch data names =
     (if length names \<noteq> 2 then False
      else strictEquals (getProp data (names ! 0)) (getProp data (names ! 1)))"

text \<open>Two dates compare by their time values; a comparison with an invalid date is false.\<close>

definition dateRangeValid :: "js_runtime \<Rightarrow> (string \<rightharpoonup> jsval) \<Rightarrow> string list \<Rightarrow> bool" where
  "dateRangeValid rt data names =
     (if length names \<noteq> 2 then False
      else
        (case (newDate rt (getProp data (names ! 0)), newDate rt (getProp data (names ! 1))) of
           (Some startDate, Some endDate) \<Rightarrow> startDate \<le> endDate
         | _ \<Rightarrow> False))"

text \<open>The two validators of the object literal, in front of what the object inherits.\<close>

definition customValidators :: "js_runtime \<Rightarrow> string \<rightharpoonup> custom_validator" where
  "customValidators rt =
     inheritedCustom ++
     [''passwordsMatch'' \<mapsto> (\<lambda>data names. Some (passwordsMatch data names)),
      ''dateRangeValid'' \<mapsto> (\<lambda>data names. Some (dateRangeValid rt data names))]"

section \<open>The validator compiler\<close>

datatype compile_error = SyntaxError string

text \<open>\<open>a || b\<close> on an optional string, and the truth value of an optional number or string.\<close>

definition orElse :: "string option \<Rightarrow> string \<Rightarrow> string" where
  "orElse a b = (case a of None \<Rightarrow> b | Some s \<Rightarrow> if s = [] then b else s)"

definition truthyNumber :: "real option \<Rightarrow> bool" where
  "truthyNumber n = (case n of None \<Rightarrow> False | Some x \<Rightarrow> x \<noteq> 0)"

definition truthyString :: "string option \<Rightarrow> bool" where
  "truthyString a = (case a of None \<Rightarrow> False | Some s \<Rightarrow> s \<noteq> [])"

text \<open>\<open>field.validation?.required\<close> and \<open>field.validation.errorMessage\<close>.\<close>

definition isRequired :: "FormField \<Rightarrow> bool" where
  "isRequired f = (case validation f of None \<Rightarrow> False | Some v \<Rightarrow> required v)"

definition fieldErrorMessage :: "FormField \<Rightarrow> string option" where
  "fieldErrorMessage f = Option.bind (validation f) errorMessage"

text \<open>The \<open>min\<close> and \<open>max\<close> checks put on a string or textarea schema.\<close>

definition lengthChecks :: "js_runtime \<Rightarrow> FormField \<Rightarrow> string_check list" where
  "lengthChecks rt f =
     (let lo = Option.bind (validation f) minLength; hi = Option.bind (validation f) maxLength in
      (if truthyNumber lo then
         [SMin (the lo) (orElse (fieldErrorMessage f)
            (''Must be at least '' @ numberToString rt (the lo) @ '' characters''))]
       else []) @
      (if truthyNumber hi then
         [SMax (the hi) (orElse (fieldErrorMessage f)
            (''Must be at most '' @ numberToString rt (the hi) @ '' characters''))]
       else []))"

text \<open>The \<open>regex\<close> check; building the regular expression may throw.\<close>

definition patternCheck :: "js_runtime \<Rightarrow> FormField \<Rightarrow> compile_error + string_check list" where
  "patternCheck rt f =
     (let pat = Option.bind (validation f) pattern in
      if truthyString pat then
        (case regExp rt (the pat) of
           None \<Rightarrow> Inl (SyntaxError (the pat))
         | Some test \<Rightarrow> Inr [SRegex test (orElse (fieldErrorMessage f) ''Invalid format'')])
      else Inr [])"

text \<open>The \<open>min\<close> and \<open>max\<close> checks of a number schema (present when not \<open>undefined\<close>).\<close>

definition boundChecks :: "js_runtime \<Rightarrow> FormField \<Rightarrow> number_check list" where
  "boundChecks rt f =
     (let lo = Option.bind (validation f) min_value; hi = Option.bind (validation f) max_value in
      (case lo of
         None \<Rightarrow> []
       | Some n \<Rightarrow> [NMin n (orElse (fieldErrorMessage f) (''Must be at least '' @ numberToString rt n))]) @
      (case hi of
         None \<Rightarrow> []
       | Some n \<Rightarrow> [NMax n (orElse (fieldErrorMessage f) (''Must be at most '' @ numberToString rt n))]))"

text \<open>
  The refinement that calls an asynchronous validator. \<open>paramValues\<close> is computed as the
  source computes it: one empty string for each name in \<open>params\<close>. The refinement sits
  directly on \<open>z.string()\<close>, so that \<open>val\<close> is a string whenever the library runs it; the
  last case is never reached.
\<close>

definition paramValues :: "string list \<Rightarrow> string list" where
  "paramValues ps = map (\<lambda>paramField. []) ps"

definition asyncRefine :: "string \<Rightarrow> async_validator \<Rightarrow> string list \<Rightarrow> jsval \<Rightarrow> event list \<times> bool" where
  "asyncRefine nm validate ps val =
     (if falsy val then ([], True)
      else
        (case val of
           Str s \<Rightarrow>
             (case validate (s # paramValues ps) of
                Some result \<Rightarrow> ([AsyncCall nm (s # paramValues ps)], result)
              | None \<Rightarrow>
                  ([AsyncCall nm (s # paramValues ps),
                    ConsoleError (''Error in async validator '' @ nm @ '':'')], False))
         | _ \<Rightarrow> ([], True)))"

text \<open>The asynchronous refinement is added only when the registry has the name.\<close>

definition withAsync :: "(string \<rightharpoonup> async_validator) \<Rightarrow> FormField \<Rightarrow> ztype \<Rightarrow> ztype" where
  "withAsync asyncValidators f stringSchema =
     (case Option.bind (validation f) asyncValidator of
        None \<Rightarrow> stringSchema
      | Some av \<Rightarrow>
          (case asyncValidators (av_name av) of
             None \<Rightarrow> stringSchema
           | Some asyncVal \<Rightarrow>
               ZEffects stringSchema
                 (asyncRefine (av_name av) asyncVal (case params av of None \<Rightarrow> [] | Some ps \<Rightarrow> ps))
                 (orElse (fieldErrorMessage f) (''Validation failed for '' @ name f))))"

text \<open>The three forms of the required test.\<close>

definition requiredString :: "jsval \<Rightarrow> bool" where
  "requiredString val = (val \<noteq> Undefined \<and> val \<noteq> Null \<and> val \<noteq> Str [])"

definition requiredValue :: "jsval \<Rightarrow> bool" where
  "requiredValue val = (val \<noteq> Undefined \<and> val \<noteq> Null)"

definition requiredArray :: "jsval \<Rightarrow> bool" where
  "requiredArray val =
     (val \<noteq> Undefined \<and> val \<noteq> Null \<and>
      (case val of Arr r xs \<Rightarrow> length xs > 0 | Str s \<Rightarrow> length s > 0 | _ \<Rightarrow> False))"

text \<open>
  Every branch of the \<open>switch\<close> ends the same way: the schema is made optional, and a
  required field gets the required test as a refinement around that.
\<close>

definition optionalRequired :: "FormField \<Rightarrow> ztype \<Rightarrow> (jsval \<Rightarrow> bool) \<Rightarrow> string \<Rightarrow> ztype" where
  "optionalRequired f schema test defaultMessage =
     (if isRequired f then
        ZEffects (ZOptional schema) (\<lambda>val. ([], test val)) (orElse (fieldErrorMessage f) defaultMessage)
      else ZOptional schema)"

text \<open>The \<open>switch\<close> over \<open>field.type\<close>; an unknown type takes the default branch.\<close>

definition fieldSchema :: "js_runtime \<Rightarrow> (string \<rightharpoonup> async_validator) \<Rightarrow> FormField \<Rightarrow> compile_error + ztype" where
  "fieldSchema rt asyncValidators f =
     (if type f = ''string'' then
        (case patternCheck rt f of
           Inl e \<Rightarrow> Inl e
         | Inr pc \<Rightarrow>
             Inr (optionalRequired f (withAsync asyncValidators f (ZString (lengthChecks rt f @ pc)))
                    requiredString ''This field is required''))
      else if type f = ''number'' then
        Inr (optionalRequired f (ZNumber (boundChecks rt f)) requiredValue ''This field is required'')
      else if type f = ''boolean'' then
        Inr (optionalRequired f ZBoolean requiredValue ''This field is required'')
      else if type f = ''date'' then
        Inr (optionalRequired f (ZString []) requiredString ''This field is required'')
      else if type f = ''radio'' then
        Inr (optionalRequired f (ZString []) requiredString ''This field is required'')
      else if type f = ''textarea'' then
        Inr (optionalRequired f (ZString (lengthChecks rt f)) requiredString ''This field is required'')
      else if type f = ''file'' then
        Inr (optionalRequired f (ZString []) requiredString ''This field is required'')
      else if type f = ''dropzone'' then
        Inr (optionalRequired f (ZArray ZAny) requiredArray ''At least one file is required'')
      else if type f = ''signature'' then
        Inr (optionalRequired f (ZString []) requiredString ''Signature is required'')
      else if type f = ''multiselect'' then
        Inr (optionalRequired f (ZArray (ZString [])) requiredArray ''This field is required'')
      else
        Inr (optionalRequired f (ZString []) requiredString ''This field is required''))"


text \<open>
  The cross-field validations are collected while the fields are visited; the message of
  each is the field's \<open>errorMessage\<close> or a text naming the field.
\<close>

record CrossFieldValidation =
  x_fields :: "string list"
  x_validator :: string
  x_errorMessage :: string

definition crossFieldValidations :: "FormField list \<Rightarrow> CrossFieldValidation list" where
  "crossFieldValidations allFields =
     concat (map (\<lambda>f.
       (case Option.bind (validation f) customValidator of
          None \<Rightarrow> []
        | Some cv \<Rightarrow>
            [\<lparr>x_fields = cv_fields cv, x_validator = validator cv,
              x_errorMessage = orElse (fieldErrorMessage f) (''Validation failed for '' @ name f)\<rparr>]))
       allFields)"

text \<open>
  \<open>schemaObj[field.name] = ...\<close> for each field in turn: a name seen before keeps its
  place among the keys and takes the new schema. The first pattern that is rejected stops
  the compilation.
\<close>

fun buildSchemaObj ::
  "js_runtime \<Rightarrow> (string \<rightharpoonup> async_validator) \<Rightarrow> FormField list \<Rightarrow> (string \<times> ztype) list
     \<Rightarrow> compile_error + (string \<times> ztype) list" where
  "buildSchemaObj rt asyncValidators [] schemaObj = Inr schemaObj"
| "buildSchemaObj rt asyncValidators (f # fs) schemaObj =
     (case fieldSchema rt asyncValidators f of
        Inl e \<Rightarrow> Inl e
      | Inr t \<Rightarrow> buildSchemaObj rt asyncValidators fs (AList.update (name f) t schemaObj))"

text \<open>
  The check of the object-level refinement: \<open>every\<close> over the collected validations, which
  stops at the first one that fails. A name for which the registry has nothing is
  reported with \<open>console.warn\<close> and counts as passed. The call of a validator is not
  guarded: when it throws, the check throws.
\<close>

fun everyValidation ::
  "(string \<rightharpoonup> custom_validator) \<Rightarrow> CrossFieldValidation list \<Rightarrow> (string \<rightharpoonup> jsval)
     \<Rightarrow> event list \<times> bool option" where
  "everyValidation registry [] data = ([], Some True)"
| "everyValidation registry (v # vs) data =
     (case registry (x_validator v) of
        None \<Rightarrow>
          (case everyValidation registry vs data of
             (es, ok) \<Rightarrow>
               (ConsoleWarn (''Validator '' @ [CHR 0x22] @ x_validator v @ [CHR 0x22] @ '' not found'') # es,
                ok))
      | Some validate \<Rightarrow>
          (case validate data (x_fields v) of
             None \<Rightarrow> ([CustomCall (x_validator v) (x_fields v)], None)
           | Some passed \<Rightarrow>
               if passed then
                 (case everyValidation registry vs data of
                    (es, ok) \<Rightarrow> (CustomCall (x_validator v) (x_fields v) # es, ok))
               else ([CustomCall (x_validator v) (x_fields v)], Some False)))"

text \<open>\<open>xs.join(sep)\<close>\<close>

fun joinWith :: "string \<Rightarrow> string list \<Rightarrow> string" where
  "joinWith sep [] = []"
| "joinWith sep [x] = x"
| "joinWith sep (x # y # ys) = x @ sep @ joinWith sep (y # ys)"

text \<open>
  \<open>zodSchema\<close>: the object of the field schemas and, when a cross-field validation was
  collected, one refinement of the whole object. Its message joins the messages of all
  collected validations and its path is the concatenation of all their field lists.
\<close>

definition zodSchema ::
  "js_runtime \<Rightarrow> (string \<rightharpoonup> async_validator) \<Rightarrow> (string \<rightharpoonup> custom_validator) \<Rightarrow> FormField list
     \<Rightarrow> compile_error + zobject" where
  "zodSchema rt asyncValidators registry allFields =
     (case buildSchemaObj rt asyncValidators allFields [] of
        Inl e \<Rightarrow> Inl e
      | Inr schemaObj \<Rightarrow>
          (let cross = crossFieldValidations allFields in
           Inr \<lparr>shape = schemaObj,
                refinement =
                  (if length cross > 0 then
                     Some (everyValidation registry cross,
                           joinWith ''; '' (map x_errorMessage cross),
                           map Key (concat (map x_fields cross)))
                   else None)\<rparr>))"

section \<open>Submitting\<close>

text \<open>
  \<open>form.handleSubmit(onSubmit)\<close> with the zod resolver: the values are parsed; \<open>onSubmit\<close>
  receives the parsed object when the parse is valid and is not called otherwise (nor
  when the parse throws). The result is the log of the run and what \<open>onSubmit\<close> received,
  if it was called.
\<close>

definition handleSubmit :: "zobject \<Rightarrow> (string \<rightharpoonup> jsval) \<Rightarrow> event list \<times> (string \<rightharpoonup> jsval) option" where
  "handleSubmit schema values =
     (case parseAsync schema values of
        (Valid, es) \<Rightarrow> (es, Some (parsedObject (shape schema) values))
      | (st, es) \<Rightarrow> (es, None))"

text \<open>
  The issues of a log, and the message shown at a field: the resolver files each issue
  under its path, and the message element of a field shows what is filed under the path
  that consists of the field's name.
\<close>

fun issuesOf :: "event list \<Rightarrow> issue list" where
  "issuesOf [] = []"
| "issuesOf (Issue i # es) = i # issuesOf es"
| "issuesOf (e # es) = issuesOf es"

definition fieldMessages :: "event list \<Rightarrow> string \<Rightarrow> string option list" where
  "fieldMessages es nm = map message (filter (\<lambda>i. path i = [Key nm]) (issuesOf es))"

section \<open>The asynchronous validators of the repository\<close>

definition lowerChar :: "char \<Rightarrow> char" where
  "lowerChar c =
     (case map_of (zip ''ABCDEFGHIJKLMNOPQRSTUVWXYZ'' ''abcdefghijklmnopqrstuvwxyz'') c of
        Some l \<Rightarrow> l
      | None \<Rightarrow> c)"

definition toLowerCase :: "string \<Rightarrow> string" where
  "toLowerCase s = map lowerChar s"

definition isDigit :: "char \<Rightarrow> bool" where
  "isDigit c = (c \<in> set ''0123456789'')"

definition isLetter :: "char \<Rightarrow> bool" where
  "isLetter c = (c \<in> set ''ABCDEFGHIJKLMNOPQRSTUVWXYZabcdefghijklmnopqrstuvwxyz'')"

definition isWhiteSpace :: "char \<Rightarrow> bool" where
  "isWhiteSpace c = (c \<in> set [CHR 0x09, CHR 0x0A, CHR 0x0B, CHR 0x0C, CHR 0x0D, CHR '' ''])"

definition endsWith :: "string \<Rightarrow> string \<Rightarrow> bool" where
  "endsWith s suffix = (length suffix \<le> length s \<and> drop (length s - length suffix) s = suffix)"

definition isUsernameAvailable :: "string \<Rightarrow> bool" where
  "isUsernameAvailable username =
     (\<not> list_ex (\<lambda>taken. stringIncludes (toLowerCase username) taken)
          [''admin'', ''root'', ''superuser'', ''system''])"

text \<open>\<open>email.split('@')[1]\<close> is what lies between the first \<open>@\<close> and the next one.\<close>

definition isEmailDomainValid :: "string \<Rightarrow> bool" where
  "isEmailDomainValid email =
     (if email = [] \<or> \<not> stringIncludes email ''@'' then False
      else
        (let domain = takeWhile (\<lambda>c. c \<noteq> CHR ''@'') (drop 1 (dropWhile (\<lambda>c. c \<noteq> CHR ''@'') email)) in
         list_ex (\<lambda>validDomain. endsWith domain validDomain)
           [''.com'', ''.org'', ''.net'', ''.edu'', ''.gov'']))"

text \<open>The three regular expressions of \<open>isPostalCodeValid\<close>, each anchored at both ends.\<close>

definition usZip :: "string \<Rightarrow> bool" where
  "usZip s =
     ((length s = 5 \<and> list_all isDigit s) \<or>
      (length s = 10 \<and> list_all isDigit (take 5 s) \<and> s ! 5 = CHR ''-'' \<and> list_all isDigit (drop 6 s)))"

definition caPostalCode :: "string \<Rightarrow> bool" where
  "caPostalCode s =
     (case s of
        [a, b, c, d, e, f, g] \<Rightarrow>
          isLetter a \<and> isDigit b \<and> isLetter c \<and> d = CHR '' '' \<and> isDigit e \<and> isLetter f \<and> isDigit g
      | _ \<Rightarrow> False)"

definition ukOutward :: "string \<Rightarrow> bool" where
  "ukOutward s =
     (case s of
        [a, b] \<Rightarrow> isLetter a \<and> isDigit b
      | [a, b, c] \<Rightarrow>
          (isLetter a \<and> isDigit b \<and> (isLetter c \<or> isDigit c)) \<or> (isLetter a \<and> isLetter b \<and> isDigit c)
      | [a, b, c, d] \<Rightarrow> isLetter a \<and> isLetter b \<and> isDigit c \<and> (isLetter d \<or> isDigit d)
      | _ \<Rightarrow> False)"

definition ukPostcode :: "string \<Rightarrow> bool" where
  "ukPostcode s =
     (length s \<ge> 4 \<and> ukOutward (take (length s - 4) s) \<and>
      (case drop (length s - 4) s of
         [a, b, c, d] \<Rightarrow> a = CHR '' '' \<and> isDigit b \<and> isLetter c \<and> isLetter d
       | _ \<Rightarrow> False))"

definition isPostalCodeValid :: "string \<Rightarrow> string \<Rightarrow> bool" where
  "isPostalCodeValid postalCode country =
     (if postalCode = [] then False
      else if toLowerCase country = ''us'' then usZip postalCode
      else if toLowerCase country = ''ca'' then caPostalCode postalCode
      else if toLowerCase country = ''uk'' then ukPostcode postalCode
      else \<not> list_all isWhiteSpace postalCode)"

text \<open>
  The registry: the three validators of the object literal, in front of what the object
  inherits. A parameter that the call does not supply is \<open>undefined\<close>:
  \<open>isUsernameAvailable\<close> and, for a postal code that is not empty, \<open>isPostalCodeValid\<close>
  then throw on \<open>toLowerCase\<close>, the other tests answer false.
\<close>

definition asyncValidators :: "string \<rightharpoonup> async_validator" where
  "asyncValidators =
     inheritedAsync ++
     [''isUsernameAvailable'' \<mapsto>
        (\<lambda>args. case args of [] \<Rightarrow> None | username # rest \<Rightarrow> Some (isUsernameAvailable username)),
      ''isEmailDomainValid'' \<mapsto>
        (\<lambda>args. case args of [] \<Rightarrow> Some False | email # rest \<Rightarrow> Some (isEmailDomainValid email)),
      ''isPostalCodeValid'' \<mapsto>
        (\<lambda>args. case args of
                  [] \<Rightarrow> Some False
                | [postalCode] \<Rightarrow> if postalCode = [] then Some False else None
                | postalCode # country # rest \<Rightarrow> Some (isPostalCodeValid postalCode country))]"

section \<open>The form component\<close>

text \<open>
  The callback given to \<open>form.watch\<close>: the visibility of every field that has a
  \<open>conditional\<close> is computed from the values, and the state \<open>conditionalFields\<close> is replaced
  by the new object only if some key of the new object maps to something else than in the
  previous one. Objects are lists of key-value pairs in the order of their keys.
\<close>

definition fieldsWithConditionals :: "FormField list \<Rightarrow> FormField list" where
  "fieldsWithConditionals allFields = filter (\<lambda>f. conditional f \<noteq> None) allFields"

definition newConditionalFields ::
  "js_runtime \<Rightarrow> FormField list \<Rightarrow> (string \<rightharpoonup> jsval) \<Rightarrow> (string \<times> bool) list" where
  "newConditionalFields rt allFields values =
     fold (\<lambda>f acc.
            (case conditional f of
               Some c \<Rightarrow> AList.update (name f) (evaluateCondition rt c values) acc
             | None \<Rightarrow> acc))
          (fieldsWithConditionals allFields) []"

definition hasChanged :: "(string \<times> bool) list \<Rightarrow> (string \<times> bool) list \<Rightarrow> bool" where
  "hasChanged prevFields newFields =
     list_ex (\<lambda>key. map_of prevFields key \<noteq> map_of newFields key) (map fst newFields)"

definition watchCallback ::
  "js_runtime \<Rightarrow> FormField list \<Rightarrow> (string \<rightharpoonup> jsval) \<Rightarrow> (string \<times> bool) list \<Rightarrow> (string \<times> bool) list" where
  "watchCallback rt allFields values prevFields =
     (let newFields = newConditionalFields rt allFields values in
      if hasChanged prevFields newFields then newFields else prevFields)"

text \<open>
  The effect that unregisters hidden fields: every field with a \<open>conditional\<close> whose entry
  in \<open>conditionalFields\<close> is not \<open>true\<close> is unregistered without keeping its value.
\<close>

definition unregisterHidden ::
  "FormField list \<Rightarrow> (string \<times> bool) list \<Rightarrow> (string \<rightharpoonup> jsval) \<Rightarrow> (string \<rightharpoonup> jsval)" where
  "unregisterHidden allFields conditionalFields values =
     fold (\<lambda>f vals.
            if conditional f \<noteq> None \<and> map_of conditionalFields (name f) \<noteq> Some True
            then vals(name f := None) else vals)
          allFields values"


text \<open>
  The memoised values of the component. \<open>useMemo\<close> keeps its value from one render to the
  next while every dependency is the same reference as in the render before, and runs its
  factory again otherwise. References are numbered by the render that created them: the
  object literal \<open>customValidators\<close> is evaluated in the body of the component, so that
  each render creates a new one; \<open>getAllFields\<close> is memoised on the schema; \<open>zodSchema\<close>
  is memoised on \<open>getAllFields\<close> and \<open>customValidators\<close>. \<open>compilations\<close> counts the runs
  of the factory of \<open>zodSchema\<close>.
\<close>

record hooks =
  renders :: nat
  schemaDep :: nat
  getAllFieldsRef :: nat
  zodSchemaDeps :: "nat \<times> nat"
  compilations :: nat

definition mount :: "nat \<Rightarrow> hooks" where
  "mount schemaRef =
     \<lparr>renders = 1, schemaDep = schemaRef, getAllFieldsRef = 1, zodSchemaDeps = (1, 1),
      compilations = 1\<rparr>"

definition rerender :: "nat \<Rightarrow> hooks \<Rightarrow> hooks" where
  "rerender schemaRef h =
     (let n = renders h + 1;
          getAllFieldsRef' = (if schemaRef = schemaDep h then getAllFieldsRef h else n);
          customValidatorsRef = n;
          deps = (getAllFieldsRef', customValidatorsRef)
      in \<lparr>renders = n, schemaDep = schemaRef, getAllFieldsRef = getAllFieldsRef',
           zodSchemaDeps = deps,
           compilations = (if deps = zodSchemaDeps h then compilations h else compilations h + 1)\<rparr>)"

text \<open>
  The component: its memoised values, the state \<open>conditionalFields\<close> and the values held
  by the form. After the first render the effects run; \<open>conditionalFields\<close> is still
  empty, so that every field with a \<open>conditional\<close> is unregistered.

  \<open>valuesChanged\<close> is one update: the form calls the watch callback with the new values;
  if the callback replaces the state, the component renders again and, the state being
  a dependency of the effect, the hidden fields are unregistered. If the state is kept,
  nothing renders.
\<close>

record component =
  hooks :: hooks
  conditionalFields :: "(string \<times> bool) list"
  storedValues :: "string \<rightharpoonup> jsval"

definition mountComponent :: "nat \<Rightarrow> FormField list \<Rightarrow> (string \<rightharpoonup> jsval) \<Rightarrow> component" where
  "mountComponent schemaRef allFields initialData =
     \<lparr>hooks = mount schemaRef, conditionalFields = [],
      storedValues = unregisterHidden allFields [] initialData\<rparr>"

definition valuesChanged ::
  "js_runtime \<Rightarrow> nat \<Rightarrow> FormField list \<Rightarrow> (string \<rightharpoonup> jsval) \<Rightarrow> component \<Rightarrow> component" where
  "valuesChanged rt schemaRef allFields values c =
     (let newState = watchCallback rt allFields values (conditionalFields c) in
      if hasChanged (conditionalFields c) (newConditionalFields rt allFields values) then
        \<lparr>hooks = rerender schemaRef (hooks c), conditionalFields = newState,
         storedValues = unregisterHidden allFields newState values\<rparr>
      else c\<lparr>storedValues := values\<rparr>)"

section \<open>The multi-step form\<close>

text \<open>
  The state of \<open>MultiStepForm\<close>: the current step, the data of the steps so far, and the
  final submissions made (each is the object that is logged as submitted before the
  success message is shown).
\<close>

record MultiStepForm =
  currentStep :: int
  formData :: "string \<rightharpoonup> jsval"
  submitted :: "(string \<rightharpoonup> jsval) list"

definition initialMultiStep :: MultiStepForm where
  "initialMultiStep = \<lparr>currentStep = 0, formData = Map.empty, submitted = []\<rparr>"

text \<open>\<open>schema.sections || []\<close>\<close>

definition sectionsOf :: "FormSchema \<Rightarrow> FormSection list" where
  "sectionsOf schema = (case sections schema of None \<Rightarrow> [] | Some secs \<Rightarrow> secs)"

definition handleStepSubmit :: "FormSchema \<Rightarrow> MultiStepForm \<Rightarrow> (string \<rightharpoonup> jsval) \<Rightarrow> MultiStepForm" where
  "handleStepSubmit schema st data =
     (let updatedFormData = formData st ++ data in
      if currentStep st = int (length (sectionsOf schema)) - 1 then
        st\<lparr>formData := updatedFormData, submitted := submitted st @ [updatedFormData]\<rparr>
      else st\<lparr>formData := updatedFormData, currentStep := currentStep st + 1\<rparr>)"

definition handlePrevStep :: "MultiStepForm \<Rightarrow> MultiStepForm" where
  "handlePrevStep st = (if currentStep st > 0 then st\<lparr>currentStep := currentStep st - 1\<rparr> else st)"

text \<open>What the user can do, and a run of the form from a state.\<close>

datatype action = StepSubmit "string \<rightharpoonup> jsval" | PrevStep

fun runSteps :: "FormSchema \<Rightarrow> MultiStepForm \<Rightarrow> action list \<Rightarrow> MultiStepForm" where
  "runSteps schema st [] = st"
| "runSteps schema st (StepSubmit data # acts) = runSteps schema (handleStepSubmit schema st data) acts"
| "runSteps schema st (PrevStep # acts) = runSteps schema (handlePrevStep st) acts"

section \<open>Compiling and validating in one step\<close>

text \<open>
  The component compiles the ruleset from all fields of its schema and hands it to the
  form as resolver. \<open>validateValues\<close> is the parse of the values by the compiled ruleset,
  \<open>submitForm\<close> the submission; both fail when the compilation throws.
\<close>

definition validateValues ::
  "js_runtime \<Rightarrow> (string \<rightharpoonup> async_validator) \<Rightarrow> (string \<rightharpoonup> custom_validator) \<Rightarrow> FormField list
     \<Rightarrow> (string \<rightharpoonup> jsval) \<Rightarrow> compile_error + status \<times> event list" where
  "validateValues rt asyncReg registry allFields values =
     (case zodSchema rt asyncReg registry allFields of
        Inl e \<Rightarrow> Inl e
      | Inr schema \<Rightarrow> Inr (parseAsync schema values))"

definition submitForm ::
  "js_runtime \<Rightarrow> (string \<rightharpoonup> async_validator) \<Rightarrow> (string \<rightharpoonup> custom_validator) \<Rightarrow> FormField list
     \<Rightarrow> (string \<rightharpoonup> jsval) \<Rightarrow> compile_error + event list \<times> (string \<rightharpoonup> jsval) option" where
  "submitForm rt asyncReg registry allFields values =
     (case zodSchema rt asyncReg registry allFields of
        Inl e \<Rightarrow> Inl e
      | Inr schema \<Rightarrow> Inr (handleSubmit schema values))"

text \<open>
  The log of the per-field stage alone: the parse of the values by the field schemas,
  before the refinement of the whole object is looked at.
\<close>

definition fieldEvents ::
  "js_runtime \<Rightarrow> (string \<rightharpoonup> async_validator) \<Rightarrow> FormField list \<Rightarrow> (string \<rightharpoonup> jsval) \<Rightarrow> event list" where
  "fieldEvents rt asyncReg allFields values =
     (case buildSchemaObj rt asyncReg allFields [] of
        Inl e \<Rightarrow> []
      | Inr schemaObj \<Rightarrow> snd (parseShape schemaObj values))"

text \<open>
  The events that come from a cross-field validation (the call of a custom validator,
  the warning for one that is missing) and those that come from an asynchronous
  validator (its call, the error logged when it throws).
\<close>

fun isCrossFieldEvent :: "event \<Rightarrow> bool" where
  "isCrossFieldEvent (CustomCall nm flds) = True"
| "isCrossFieldEvent (ConsoleWarn msg) = True"
| "isCrossFieldEvent e = False"

fun isAsyncEvent :: "event \<Rightarrow> bool" where
  "isAsyncEvent (AsyncCall nm args) = True"
| "isAsyncEvent (ConsoleError msg) = True"
| "isAsyncEvent e = False"

text \<open>A schema is field-level when none of its refinements produces a cross-field event.\<close>

fun fieldLevel :: "ztype \<Rightarrow> bool" where
  "fieldLevel (ZEffects t check msg) =
     (fieldLevel t \<and> (\<forall>v. \<forall>e \<in> set (fst (check v)). \<not> isCrossFieldEvent e))"
| "fieldLevel (ZArray t) = fieldLevel t"
| "fieldLevel (ZOptional t) = fieldLevel t"
| "fieldLevel t = True"

text \<open>
  For comparison: the field with every declaration of a validator removed that names a
  validator the registries do not have.
\<close>

definition withoutAbsent ::
  "(string \<rightharpoonup> async_validator) \<Rightarrow> (string \<rightharpoonup> custom_validator) \<Rightarrow> FormField \<Rightarrow> FormField" where
  "withoutAbsent asyncReg registry f =
     (case validation f of
        None \<Rightarrow> f
      | Some v \<Rightarrow>
          f\<lparr>validation := Some (v
            \<lparr>customValidator :=
               (case customValidator v of
                  None \<Rightarrow> None
                | Some cv \<Rightarrow> if registry (validator cv) = None then None else Some cv),
             asyncValidator :=
               (case asyncValidator v of
                  None \<Rightarrow> None
                | Some av \<Rightarrow> if asyncReg (av_name av) = None then None else Some av)\<rparr>)\<rparr>)"

section \<open>Example schemas\<close>

text \<open>A runtime for the examples, none of which prints a number, builds a pattern or
  reads a date.\<close>

definition noRuntime :: js_runtime where
  "noRuntime = \<lparr>numberToString = (\<lambda>n. []), regExp = (\<lambda>p. None), newDate = (\<lambda>v. None)\<rparr>"

definition noRules :: ValidationRules where
  "noRules =
     \<lparr>required = False, min_value = None, max_value = None, minLength = None, maxLength = None,
      pattern = None, errorMessage = None, customValidator = None, asyncValidator = None\<rparr>"

text \<open>
  A shipping form: \<open>country\<close> is required and is shown unless \<open>shipTo\<close> is \<open>"domestic"\<close>.
\<close>

definition shippingFields :: "FormField list" where
  "shippingFields =
     [\<lparr>name = ''shipTo'', type = ''radio'', validation = None, conditional = None\<rparr>,
      \<lparr>name = ''country'', type = ''string'',
       validation = Some (noRules\<lparr>required := True\<rparr>),
       conditional = Some (ConditionalLogic (Some ''shipTo'') (Some ''notEquals'')
                             (Some (PStr ''domestic'')) None None None)\<rparr>]"

text \<open>
  The shipping form after the user chose \<open>"international"\<close> and entered a country, and
  after the user then went back to \<open>"domestic"\<close>.
\<close>

definition shippingShown :: component where
  "shippingShown =
     valuesChanged noRuntime 7 shippingFields
       [''shipTo'' \<mapsto> Str ''international'', ''country'' \<mapsto> Str ''Ghana'']
       (valuesChanged noRuntime 7 shippingFields [''shipTo'' \<mapsto> Str ''international'']
          (mountComponent 7 shippingFields Map.empty))"

definition shippingHidden :: component where
  "shippingHidden =
     valuesChanged noRuntime 7 shippingFields
       [''shipTo'' \<mapsto> Str ''domestic'', ''country'' \<mapsto> Str ''Ghana'']
       shippingShown"

text \<open>
  A sign-up form: the user name is checked by \<open>isUsernameAvailable\<close>, and the
  confirmation must match the password.
\<close>

definition signupFields :: "FormField list" where
  "signupFields =
     [\<lparr>name = ''username'', type = ''string'',
       validation = Some (noRules\<lparr>asyncValidator :=
                      Some \<lparr>av_name = ''isUsernameAvailable'', params = None\<rparr>\<rparr>),
       conditional = None\<rparr>,
      \<lparr>name = ''password'', type = ''string'', validation = None, conditional = None\<rparr>,
      \<lparr>name = ''confirmPassword'', type = ''string'',
       validation = Some (noRules\<lparr>errorMessage := Some ''Passwords do not match'',
                      customValidator :=
                        Some \<lparr>cv_fields = [''password'', ''confirmPassword''],
                              validator = ''passwordsMatch''\<rparr>\<rparr>),
       conditional = None\<rparr>]"

text \<open>
  An address form: the postal code is checked by \<open>isPostalCodeValid\<close>, which is to
  receive the country as its second argument.
\<close>

definition addressFields :: "FormField list" where
  "addressFields =
     [\<lparr>name = ''country'', type = ''string'', validation = None, conditional = None\<rparr>,
      \<lparr>name = ''postalCode'', type = ''string'',
       validation = Some (noRules\<lparr>errorMessage := Some ''Invalid postal code'',
                      asyncValidator :=
                        Some \<lparr>av_name = ''isPostalCodeValid'', params = Some [''country'']\<rparr>\<rparr>),
       conditional = None\<rparr>]"



text \<open>A form whose two declarations name validators that no registry has.\<close>

definition typoFields :: "FormField list" where
  "typoFields =
     [\<lparr>name = ''email'', type = ''string'',
       validation = Some (noRules\<lparr>asyncValidator :=
                      Some \<lparr>av_name = ''isEmailDomainValdi'', params = None\<rparr>\<rparr>),
       conditional = None\<rparr>,
      \<lparr>name = ''repeatEmail'', type = ''string'',
       validation = Some (noRules\<lparr>customValidator :=
                      Some \<lparr>cv_fields = [''email'', ''repeatEmail''], validator = ''emailsMatch''\<rparr>\<rparr>),
       conditional = None\<rparr>]"

text \<open>
  A form whose two declarations use names that the registries do not declare but that
  every object inherits.
\<close>

definition inheritedNameFields :: "FormField list" where
  "inheritedNameFields =
     [\<lparr>name = ''email'', type = ''string'',
       validation = Some (noRules\<lparr>asyncValidator :=
                      Some \<lparr>av_name = ''hasOwnProperty'', params = None\<rparr>\<rparr>),
       conditional = None\<rparr>,
      \<lparr>name = ''repeatEmail'', type = ''string'',
       validation = Some (noRules\<lparr>customValidator :=
                      Some \<lparr>cv_fields = [''email'', ''repeatEmail''], validator = ''valueOf''\<rparr>\<rparr>),
       conditional = None\<rparr>]"

section \<open>The condition evaluator: composite nodes\<close>

text \<open>
  Claim C5, as the code has it. A node whose \<open>conditions\<close> list has at least one child is
  true, under \<open>logicalOperator\<close> \<open>"or"\<close>, exactly when some child is true, and under any
  other or no \<open>logicalOperator\<close> exactly when all children are true. A node whose
  \<open>conditions\<close> list is empty is evaluated as a leaf: its value is that of the node with
  the same \<open>field\<close>, \<open>operator\<close>, \<open>value\<close> and \<open>equals\<close> that has neither \<open>conditions\<close> nor a
  \<open>logicalOperator\<close>.
\<close>

theorem evaluateCondition_composite:
  "(conditions c = Some cs \<and> cs \<noteq> [] \<longrightarrow>
      evaluateCondition rt c formValues =
        (if logicalOperator c = Some ''or''
         then (\<exists>child \<in> set cs. evaluateCondition rt child formValues)
         else (\<forall>child \<in> set cs. evaluateCondition rt child formValues)))
   \<and> (conditions c = Some [] \<longrightarrow>
        evaluateCondition rt c formValues =
          evaluateCondition rt
            (ConditionalLogic (field c) (operator c) (cvalue c) (equals c) None None) formValues)"
proof (cases c)
  case (ConditionalLogic fld op val eq conds lop)
  show ?thesis
  proof (intro conjI impI)
    assume "conditions c = Some cs \<and> cs \<noteq> []"
    then obtain d ds where cs: "conds = Some (d # ds)" "cs = d # ds"
      using ConditionalLogic by (cases cs) auto
    show "evaluateCondition rt c formValues =
        (if logicalOperator c = Some ''or''
         then (\<exists>child \<in> set cs. evaluateCondition rt child formValues)
         else (\<forall>child \<in> set cs. evaluateCondition rt child formValues))"
      unfolding ConditionalLogic cs
      by (simp add: list_ex_iff list_all_iff del: One_nat_def)
  next
    assume "conditions c = Some []"
    then have "conds = Some []" using ConditionalLogic by simp
    then show "evaluateCondition rt c formValues =
          evaluateCondition rt
            (ConditionalLogic (field c) (operator c) (cvalue c) (equals c) None None) formValues"
      unfolding ConditionalLogic by simp
  qed
qed

theorem evaluateCondition_composite_witness:
  "conditions (ConditionalLogic None None None None
       (Some [ConditionalLogic (Some ''a'') (Some ''equals'') (Some (PStr ''x'')) None None None,
              ConditionalLogic (Some ''b'') (Some ''isEmpty'') None None None None])
       (Some ''or''))
     = Some [ConditionalLogic (Some ''a'') (Some ''equals'') (Some (PStr ''x'')) None None None,
             ConditionalLogic (Some ''b'') (Some ''isEmpty'') None None None None]
   \<and> evaluateCondition noRuntime (ConditionalLogic None None None None
       (Some [ConditionalLogic (Some ''a'') (Some ''equals'') (Some (PStr ''x'')) None None None,
              ConditionalLogic (Some ''b'') (Some ''isEmpty'') None None None None])
       (Some ''or'')) [''a'' \<mapsto> Str ''y'']
   \<and> \<not> evaluateCondition noRuntime (ConditionalLogic None None None None
       (Some [ConditionalLogic (Some ''a'') (Some ''equals'') (Some (PStr ''x'')) None None None,
              ConditionalLogic (Some ''b'') (Some ''isEmpty'') None None None None])
       (Some ''and'')) [''a'' \<mapsto> Str ''y'']
   \<and> conditions (ConditionalLogic (Some ''a'') (Some ''notEquals'') (Some (PStr ''x'')) None
       (Some []) (Some ''or'')) = Some []
   \<and> evaluateCondition noRuntime
        (ConditionalLogic (Some ''a'') (Some ''notEquals'') (Some (PStr ''x'')) None
           (Some []) (Some ''or'')) [''a'' \<mapsto> Str ''y'']
      = evaluateCondition noRuntime
          (ConditionalLogic (Some ''a'') (Some ''notEquals'') (Some (PStr ''x'')) None None None)
          [''a'' \<mapsto> Str ''y'']"
  using evaluateCondition_composite
    [of "ConditionalLogic None None None None
       (Some [ConditionalLogic (Some ''a'') (Some ''equals'') (Some (PStr ''x'')) None None None,
              ConditionalLogic (Some ''b'') (Some ''isEmpty'') None None None None])
       (Some ''or'')"
       "[ConditionalLogic (Some ''a'') (Some ''equals'') (Some (PStr ''x'')) None None None,
              ConditionalLogic (Some ''b'') (Some ''isEmpty'') None None None None]"
       noRuntime "[''a'' \<mapsto> Str ''y'']"]
    evaluateCondition_composite
    [of "ConditionalLogic None None None None
       (Some [ConditionalLogic (Some ''a'') (Some ''equals'') (Some (PStr ''x'')) None None None,
              ConditionalLogic (Some ''b'') (Some ''isEmpty'') None None None None])
       (Some ''and'')"
       "[ConditionalLogic (Some ''a'') (Some ''equals'') (Some (PStr ''x'')) None None None,
              ConditionalLogic (Some ''b'') (Some ''isEmpty'') None None None None]"
       noRuntime "[''a'' \<mapsto> Str ''y'']"]
    evaluateCondition_composite
    [of "ConditionalLogic (Some ''a'') (Some ''notEquals'') (Some (PStr ''x'')) None
           (Some []) (Some ''or'')" "[]" noRuntime "[''a'' \<mapsto> Str ''y'']"]
  by (simp add: getProp_def propertyKey_def strictEquals_def)

text \<open>
  A node with an empty \<open>conditions\<close> list is not evaluated over its children but as a
  leaf. With \<open>"or"\<close> and no child, the node below is true on the empty snapshot (the value
  of \<open>a\<close> and the constant are both \<open>undefined\<close>) although no child is true; with \<open>"and"\<close>
  and no child, the second node is false although all of its children are true.
\<close>

theorem evaluateCondition_empty_conditions_counterexample:
  "conditions (ConditionalLogic (Some ''a'') None None None (Some []) (Some ''or'')) = Some []
   \<and> evaluateCondition noRuntime
        (ConditionalLogic (Some ''a'') None None None (Some []) (Some ''or'')) Map.empty
   \<and> conditions (ConditionalLogic (Some ''a'') None (Some (PStr ''x'')) None (Some []) (Some ''and'')) = Some []
   \<and> \<not> evaluateCondition noRuntime
        (ConditionalLogic (Some ''a'') None (Some (PStr ''x'')) None (Some []) (Some ''and''))
        [''a'' \<mapsto> Str ''y'']"
  by (simp add: getProp_def propertyKey_def strictEquals_def)

section \<open>The multi-step form: advancing\<close>

text \<open>
  Claim C6. With two sections, submitting the data \<open>a\<close> of the first step moves to the
  second step and submits nothing; submitting the data \<open>b\<close> of the second step then makes
  exactly one final submission, of \<open>a\<close> merged with \<open>b\<close>: the merged object has the keys of
  both, and a key of \<open>b\<close> overwrites the same key of \<open>a\<close>.
\<close>

theorem multi_step_two_sections:
  "handleStepSubmit \<lparr>formTitle = t, formDescription = d, schema_fields = fs, sections = Some [A, B]\<rparr>
      initialMultiStep a
     = \<lparr>currentStep = 1, formData = a, submitted = []\<rparr>
   \<and> handleStepSubmit \<lparr>formTitle = t, formDescription = d, schema_fields = fs, sections = Some [A, B]\<rparr>
       (handleStepSubmit \<lparr>formTitle = t, formDescription = d, schema_fields = fs, sections = Some [A, B]\<rparr>
          initialMultiStep a) b
     = \<lparr>currentStep = 1, formData = a ++ b, submitted = [a ++ b]\<rparr>
   \<and> dom (a ++ b) = dom a \<union> dom b
   \<and> (a ++ b) k = (case b k of Some v \<Rightarrow> Some v | None \<Rightarrow> a k)"
proof (intro conjI)
  show "dom (a ++ b) = dom a \<union> dom b"
    by (simp add: Un_commute)
  show "(a ++ b) k = (case b k of Some v \<Rightarrow> Some v | None \<Rightarrow> a k)"
    by (simp add: map_add_def)
qed (simp_all add: handleStepSubmit_def initialMultiStep_def sectionsOf_def Let_def)

section \<open>The multi-step form without sections\<close>

lemma handleStepSubmit_no_sections:
  assumes "sectionsOf schema = []" and "0 \<le> currentStep st"
  shows "handleStepSubmit schema st data =
           st\<lparr>formData := formData st ++ data, currentStep := currentStep st + 1\<rparr>"
  using assms by (simp add: handleStepSubmit_def)

lemma runSteps_no_sections:
  assumes "sectionsOf schema = []"
  shows "0 \<le> currentStep st \<Longrightarrow> submitted st = [] \<Longrightarrow>
     0 \<le> currentStep (runSteps schema st acts) \<and> submitted (runSteps schema st acts) = []"
proof (induction acts arbitrary: st)
  case Nil
  then show ?case by simp
next
  case (Cons act acts)
  show ?case
  proof (cases act)
    case (StepSubmit data)
    have "0 \<le> currentStep (handleStepSubmit schema st data)"
         "submitted (handleStepSubmit schema st data) = []"
      using Cons.prems assms by (simp_all add: handleStepSubmit_no_sections)
    then show ?thesis using Cons.IH StepSubmit by simp
  next
    case PrevStep
    have "0 \<le> currentStep (handlePrevStep st)" "submitted (handlePrevStep st) = []"
      using Cons.prems by (simp_all add: handlePrevStep_def)
    then show ?thesis using Cons.IH PrevStep by simp
  qed
qed

text \<open>
  Claim C10. When the schema has no \<open>sections\<close> or an empty list of them, then in every
  state the form can reach from its initial state by step submissions and steps back, no
  final submission has been made and the step index is not the last index (which is -1);
  a further step submission adds one to the step index and still makes no final
  submission.
\<close>

theorem no_sections_never_submits:
  assumes "sections schema = None \<or> sections schema = Some []"
  shows "submitted (runSteps schema initialMultiStep acts) = []
       \<and> currentStep (runSteps schema initialMultiStep acts)
           \<noteq> int (length (sectionsOf schema)) - 1
       \<and> currentStep (handleStepSubmit schema (runSteps schema initialMultiStep acts) data)
           = currentStep (runSteps schema initialMultiStep acts) + 1
       \<and> submitted (handleStepSubmit schema (runSteps schema initialMultiStep acts) data) = []"
proof -
  have e: "sectionsOf schema = []"
    using assms by (auto simp: sectionsOf_def)
  have inv: "0 \<le> currentStep (runSteps schema initialMultiStep acts)"
            "submitted (runSteps schema initialMultiStep acts) = []"
    using runSteps_no_sections [OF e, of initialMultiStep acts]
    by (simp_all add: initialMultiStep_def)
  show ?thesis
    using inv e by (simp add: handleStepSubmit_no_sections [OF e])
qed

theorem no_sections_never_submits_witness:
  "(sections \<lparr>formTitle = ''t'', formDescription = ''d'', schema_fields = Some [], sections = None\<rparr> = None
     \<or> sections \<lparr>formTitle = ''t'', formDescription = ''d'', schema_fields = Some [], sections = None\<rparr> = Some [])
   \<and> submitted (runSteps \<lparr>formTitle = ''t'', formDescription = ''d'', schema_fields = Some [], sections = None\<rparr>
        initialMultiStep [StepSubmit [''a'' \<mapsto> Num 1], PrevStep, StepSubmit [''b'' \<mapsto> Num 2]]) = []
   \<and> currentStep (handleStepSubmit \<lparr>formTitle = ''t'', formDescription = ''d'', schema_fields = Some [], sections = None\<rparr>
        (runSteps \<lparr>formTitle = ''t'', formDescription = ''d'', schema_fields = Some [], sections = None\<rparr>
           initialMultiStep [StepSubmit [''a'' \<mapsto> Num 1], PrevStep, StepSubmit [''b'' \<mapsto> Num 2]])
        [''c'' \<mapsto> Num 3]) = 2"
  using no_sections_never_submits
    [of "\<lparr>formTitle = ''t'', formDescription = ''d'', schema_fields = Some [], sections = None\<rparr>"
        "[StepSubmit [''a'' \<mapsto> Num 1], PrevStep, StepSubmit [''b'' \<mapsto> Num 2]]" "[''c'' \<mapsto> Num 3]"]
  by (simp add: handleStepSubmit_def handlePrevStep_def initialMultiStep_def sectionsOf_def)

section \<open>The visibility map\<close>

lemma fold_visibility_other:
  "k \<notin> name ` set fs \<Longrightarrow>
   map_of (fold (\<lambda>f acc. case conditional f of
                   Some c \<Rightarrow> AList.update (name f) (evaluateCondition rt c values) acc
                 | None \<Rightarrow> acc) fs acc) k = map_of acc k"
  by (induction fs arbitrary: acc) (auto simp: update_conv' split: option.splits)

lemma fold_visibility_entry:
  "distinct (map name fs) \<Longrightarrow> f \<in> set fs \<Longrightarrow> conditional f = Some c \<Longrightarrow>
   map_of (fold (\<lambda>f acc. case conditional f of
                   Some c \<Rightarrow> AList.update (name f) (evaluateCondition rt c values) acc
                 | None \<Rightarrow> acc) fs acc) (name f) = Some (evaluateCondition rt c values)"
proof (induction fs arbitrary: acc)
  case Nil
  then show ?case by simp
next
  case (Cons g fs)
  show ?case
  proof (cases "f = g")
    case True
    then have "name f \<notin> name ` set fs" using Cons.prems(1) by auto
    then show ?thesis
      using True Cons.prems(3) by (simp add: fold_visibility_other update_conv')
  next
    case False
    then show ?thesis using Cons by auto
  qed
qed

lemma fold_visibility_keys:
  "\<forall>f \<in> set fs. conditional f \<noteq> None \<Longrightarrow>
   fst ` set (fold (\<lambda>f acc. case conditional f of
                   Some c \<Rightarrow> AList.update (name f) (evaluateCondition rt c values) acc
                 | None \<Rightarrow> acc) fs acc) = name ` set fs \<union> fst ` set acc"
  by (induction fs arbitrary: acc) (auto simp: dom_update split: option.splits)

lemma newConditionalFields_entry:
  assumes "distinct (map name (fieldsWithConditionals allFields))"
    and "f \<in> set allFields" and "conditional f = Some c"
  shows "map_of (newConditionalFields rt allFields values) (name f) = Some (evaluateCondition rt c values)"
proof -
  have "f \<in> set (fieldsWithConditionals allFields)"
    using assms(2,3) by (simp add: fieldsWithConditionals_def)
  then show ?thesis
    unfolding newConditionalFields_def
    by (rule fold_visibility_entry [OF assms(1) _ assms(3)])
qed

lemma newConditionalFields_keys:
  "fst ` set (newConditionalFields rt allFields values) = name ` set (fieldsWithConditionals allFields)"
  unfolding newConditionalFields_def
  by (subst fold_visibility_keys) (auto simp: fieldsWithConditionals_def)





section \<open>The arguments of an asynchronous validator\<close>

text \<open>
  Whenever the refinement calls the validator, the first argument is the string under
  validation and every further argument is the empty string, one for each name in
  \<open>params\<close>. The refinement has no access to the snapshot.
\<close>

lemma asyncRefine_arguments:
  assumes "AsyncCall nm' args \<in> set (fst (asyncRefine nm validate ps val))"
  shows "\<exists>s. val = Str s \<and> args = s # replicate (length ps) []"
  using assms
  by (auto simp: asyncRefine_def paramValues_def map_replicate_const
        split: if_splits jsval.splits option.splits)

text \<open>
  The refinement is run on strings only: on any other value the string schema under it
  aborts, and the validator is not called.
\<close>

lemma async_refinement_only_on_strings:
  assumes "\<And>s. v \<noteq> Str s"
  shows "parseType (withAsync asyncReg f (ZString checks)) p v = invalidType p"
  using assms
  by (cases v) (auto simp: withAsync_def invalidType_def split: option.splits)

text \<open>
  Claim C1, at an input where the code departs from it. The address form is validated
  with country \<open>"us"\<close> and postal code \<open>"ABCDE"\<close>. \<open>isPostalCodeValid\<close> is called with
  the postal code and the empty string, not with the country of the snapshot; it accepts
  under the empty country, and validation is valid, although it rejects \<open>"ABCDE"\<close> for
  the country \<open>"us"\<close>.
\<close>

theorem async_validator_gets_placeholder:
  "validateValues noRuntime asyncValidators (customValidators noRuntime) addressFields
       [''country'' \<mapsto> Str ''us'', ''postalCode'' \<mapsto> Str ''ABCDE'']
     = Inr (Valid, [AsyncCall ''isPostalCodeValid'' [''ABCDE'', '''']])
   \<and> isPostalCodeValid ''ABCDE'' '''' \<and> \<not> isPostalCodeValid ''ABCDE'' ''us''"
  by code_simp

section \<open>Recompiling the ruleset\<close>

text \<open>
  Every render after the first runs the factory of \<open>zodSchema\<close> again, whatever the
  schema reference: the dependency \<open>customValidators\<close> is a new object in each render.
  A change of values that replaces the visibility map renders the component again.
\<close>

lemma rerender_recompiles:
  assumes "snd (zodSchemaDeps h) \<le> renders h"
  shows "compilations (rerender schemaRef h) = compilations h + 1
       \<and> snd (zodSchemaDeps (rerender schemaRef h)) \<le> renders (rerender schemaRef h)"
  using assms by (cases "zodSchemaDeps h") (auto simp: rerender_def Let_def)

lemma valuesChanged_recompiles:
  assumes "snd (zodSchemaDeps (hooks c)) \<le> renders (hooks c)"
    and "hasChanged (conditionalFields c) (newConditionalFields rt allFields values)"
  shows "compilations (hooks (valuesChanged rt schemaRef allFields values c))
           = compilations (hooks c) + 1"
  using assms rerender_recompiles [OF assms(1), of schemaRef]
  by (simp add: valuesChanged_def Let_def)

text \<open>
  Claim C2, at an input where the code departs from it. The shipping form is mounted
  with schema reference 7 and compiles its ruleset once. The user then changes \<open>shipTo\<close>
  to \<open>"international"\<close>: the schema reference is still 7, and the ruleset has been
  compiled a second time.
\<close>

theorem value_change_recompiles:
  "compilations (hooks (mountComponent 7 shippingFields [''shipTo'' \<mapsto> Str ''domestic''])) = 1
   \<and> compilations (hooks (valuesChanged noRuntime 7 shippingFields [''shipTo'' \<mapsto> Str ''international'']
        (mountComponent 7 shippingFields [''shipTo'' \<mapsto> Str ''domestic'']))) = 2
   \<and> schemaDep (hooks (valuesChanged noRuntime 7 shippingFields [''shipTo'' \<mapsto> Str ''international'']
        (mountComponent 7 shippingFields [''shipTo'' \<mapsto> Str ''domestic'']))) = 7"
  by code_simp

section \<open>Hidden fields\<close>

text \<open>
  When the visibility of a field flips from true to false, the same update removes the
  field's value from the values of the form.
\<close>

lemma unregisterHidden_keeps_none:
  "vals k = None \<Longrightarrow>
   fold (\<lambda>f vals. if P f then vals(name f := None) else vals) fs vals k = None"
  by (induction fs arbitrary: vals) auto

lemma unregisterHidden_removes:
  assumes "f \<in> set allFields" and "conditional f \<noteq> None" and "map_of cf (name f) \<noteq> Some True"
  shows "unregisterHidden allFields cf values (name f) = None"
  unfolding unregisterHidden_def using assms(1)
proof (induction allFields arbitrary: "values")
  case Nil
  then show ?case by simp
next
  case (Cons g fs)
  show ?case
  proof (cases "f = g")
    case True
    then show ?thesis using assms(2,3) by (simp add: unregisterHidden_keeps_none)
  next
    case False
    then show ?thesis using Cons by simp
  qed
qed

lemma valuesChanged_hides:
  assumes "distinct (map name (fieldsWithConditionals allFields))"
    and "f \<in> set allFields" and "conditional f = Some c"
    and "map_of (conditionalFields st) (name f) = Some True"
    and "\<not> evaluateCondition rt c values"
  shows "map_of (conditionalFields (valuesChanged rt schemaRef allFields values st)) (name f) = Some False
       \<and> storedValues (valuesChanged rt schemaRef allFields values st) (name f) = None"
proof -
  let ?new = "newConditionalFields rt allFields values"
  have new: "map_of ?new (name f) = Some False"
    using newConditionalFields_entry [OF assms(1-3)] assms(5) by simp
  have "name f \<in> fst ` set ?new"
    using assms(2,3) by (simp add: newConditionalFields_keys fieldsWithConditionals_def)
  then obtain b where "(name f, b) \<in> set ?new" by auto
  then have ch: "hasChanged (conditionalFields st) ?new"
    unfolding hasChanged_def list_ex_iff using new assms(4)
    by (intro bexI [of _ "name f"]) (auto intro: rev_image_eqI)
  then have wc: "watchCallback rt allFields values (conditionalFields st) = ?new"
    by (simp add: watchCallback_def)
  have "unregisterHidden allFields ?new values (name f) = None"
    using assms(2,3) new by (intro unregisterHidden_removes) auto
  then show ?thesis
    using ch wc new by (simp add: valuesChanged_def Let_def)
qed

text \<open>
  The ruleset does not look at the visibility map: a required field that has no value
  keeps the form from being submitted, whether the field is shown or hidden.
\<close>

lemma buildSchemaObj_other:
  "buildSchemaObj rt asyncReg fs acc = Inr shp \<Longrightarrow> k \<notin> name ` set fs \<Longrightarrow>
   map_of shp k = map_of acc k"
  by (induction fs arbitrary: acc) (auto simp: update_conv' split: sum.splits)

lemma buildSchemaObj_entry:
  "buildSchemaObj rt asyncReg fs acc = Inr shp \<Longrightarrow> distinct (map name fs) \<Longrightarrow> f \<in> set fs \<Longrightarrow>
   \<exists>t. fieldSchema rt asyncReg f = Inr t \<and> map_of shp (name f) = Some t"
proof (induction fs arbitrary: acc)
  case Nil
  then show ?case by simp
next
  case (Cons g fs)
  from Cons.prems(1) obtain t where t: "fieldSchema rt asyncReg g = Inr t"
      and rest: "buildSchemaObj rt asyncReg fs (AList.update (name g) t acc) = Inr shp"
    by (auto split: sum.splits)
  show ?case
  proof (cases "f = g")
    case True
    have "name g \<notin> name ` set fs" using Cons.prems(2) by auto
    then have "map_of shp (name g) = Some t"
      using buildSchemaObj_other [OF rest] by (simp add: update_conv')
    then show ?thesis using True t by simp
  next
    case False
    then show ?thesis using Cons.IH [OF rest] Cons.prems(2,3) by simp
  qed
qed

lemma required_schema_rejects_undefined:
  assumes "fieldSchema rt asyncReg f = Inr t" and "isRequired f"
  shows "fst (parseType t p Undefined) = Dirty"
  using assms
  by (auto simp: fieldSchema_def optionalRequired_def requiredString_def requiredValue_def
        requiredArray_def split: if_splits sum.splits)

lemma mergeStatus_not_valid: "st \<in> set sts \<Longrightarrow> st \<noteq> Valid \<Longrightarrow> mergeStatus sts \<noteq> Valid"
  by (cases st) (auto simp: mergeStatus_def)

lemma parseAsync_not_valid:
  "fst (parseShape (shape s) values) \<noteq> Valid \<Longrightarrow> fst (parseAsync s values) \<noteq> Valid"
  by (cases "parseShape (shape s) values"; cases "fst (parseShape (shape s) values)")
     (auto simp: parseAsync_def split: option.splits prod.splits)

lemma required_without_value_blocks:
  assumes "distinct (map name allFields)" and "f \<in> set allFields" and "isRequired f"
    and "values (name f) = None"
    and "submitForm rt asyncReg registry allFields values = Inr (es, r)"
  shows "r = None"
proof -
  from assms(5) obtain shp where shp: "buildSchemaObj rt asyncReg allFields [] = Inr shp"
    by (auto simp: submitForm_def zodSchema_def split: sum.splits)
  then obtain s where s: "zodSchema rt asyncReg registry allFields = Inr s" "shape s = shp"
    by (simp add: zodSchema_def Let_def)
  from buildSchemaObj_entry [OF shp assms(1,2)]
  obtain t where t: "fieldSchema rt asyncReg f = Inr t" "map_of shp (name f) = Some t"
    by blast
  then have mem: "(name f, t) \<in> set shp" by (simp add: map_of_SomeD)
  have "fst (parseType t [Key (name f)] (getProp values (name f))) = Dirty"
    using required_schema_rejects_undefined [OF t(1) assms(3)] assms(4)
    by (simp add: getProp_def)
  then have "Dirty \<in> set (map fst (map (\<lambda>(k, t). parseType t [Key k] (getProp values k)) shp))"
    using mem by (force simp: image_iff)
  then have "fst (parseShape shp values) \<noteq> Valid"
    using mergeStatus_not_valid [of Dirty] by (simp add: parseShape_def Let_def)
  then have "fst (parseAsync s values) \<noteq> Valid"
    using s(2) parseAsync_not_valid by blast
  then have "snd (handleSubmit s values) = None"
    by (cases "parseAsync s values"; cases "fst (parseAsync s values)")
       (auto simp: handleSubmit_def)
  then show ?thesis using assms(5) s(1) by (simp add: submitForm_def)
qed

text \<open>
  Claim C3, at an input where the code departs from it. In the shipping form the user
  chooses \<open>"international"\<close>, enters a country and goes back to \<open>"domestic"\<close>. The
  required field \<open>country\<close> is then hidden and its value is gone from the values of the
  form, as the claim says; but submitting fails on \<open>country\<close> with "This field is
  required", and \<open>onSubmit\<close> is not called.
\<close>

theorem hidden_required_field_blocks_submit:
  "map_of (conditionalFields shippingShown) ''country'' = Some True
   \<and> storedValues shippingShown ''country'' = Some (Str ''Ghana'')
   \<and> map_of (conditionalFields shippingHidden) ''country'' = Some False
   \<and> storedValues shippingHidden ''country'' = None
   \<and> storedValues shippingHidden ''shipTo'' = Some (Str ''domestic'')
   \<and> submitForm noRuntime asyncValidators (customValidators noRuntime) shippingFields
         (storedValues shippingHidden)
       = Inr ([Issue \<lparr>code = custom, path = [Key ''country''],
                       message = Some ''This field is required''\<rparr>], None)"
proof -
  have "validateValues noRuntime asyncValidators (customValidators noRuntime) shippingFields
          (storedValues shippingHidden)
        = Inr (Dirty, [Issue \<lparr>code = custom, path = [Key ''country''],
                               message = Some ''This field is required''\<rparr>])"
    by code_simp
  then have "submitForm noRuntime asyncValidators (customValidators noRuntime) shippingFields
         (storedValues shippingHidden)
       = Inr ([Issue \<lparr>code = custom, path = [Key ''country''],
                       message = Some ''This field is required''\<rparr>], None)"
    by (auto simp: validateValues_def submitForm_def handleSubmit_def split: sum.splits)
  moreover have "map_of (conditionalFields shippingShown) ''country'' = Some True"
    by code_simp
  moreover have "storedValues shippingShown ''country'' = Some (Str ''Ghana'')"
    by code_simp
  moreover have "map_of (conditionalFields shippingHidden) ''country'' = Some False"
    by code_simp
  moreover have "storedValues shippingHidden ''country'' = None"
    by code_simp
  moreover have "storedValues shippingHidden ''shipTo'' = Some (Str ''domestic'')"
    by code_simp
  ultimately show ?thesis by simp
qed

section \<open>The message of a failed cross-field validation\<close>

text \<open>
  Claim C4, at an input where the code departs from it. In the sign-up form the
  confirmation differs from the password. \<open>passwordsMatch\<close> fails and raises one issue,
  whose path is the list of both field names; nothing is filed under \<open>password\<close> and
  nothing under \<open>confirmPassword\<close>, so that neither field shows the message.
\<close>

theorem cross_field_message_on_no_field:
  "validateValues noRuntime asyncValidators (customValidators noRuntime) signupFields
       [''username'' \<mapsto> Str ''bob'', ''password'' \<mapsto> Str ''secret1'',
        ''confirmPassword'' \<mapsto> Str ''secret2'']
     = Inr (Dirty,
         [AsyncCall ''isUsernameAvailable'' [''bob''],
          CustomCall ''passwordsMatch'' [''password'', ''confirmPassword''],
          Issue \<lparr>code = custom, path = [Key ''password'', Key ''confirmPassword''],
                 message = Some ''Passwords do not match''\<rparr>])
   \<and> fieldMessages
         [AsyncCall ''isUsernameAvailable'' [''bob''],
          CustomCall ''passwordsMatch'' [''password'', ''confirmPassword''],
          Issue \<lparr>code = custom, path = [Key ''password'', Key ''confirmPassword''],
                 message = Some ''Passwords do not match''\<rparr>] ''password'' = []
   \<and> fieldMessages
         [AsyncCall ''isUsernameAvailable'' [''bob''],
          CustomCall ''passwordsMatch'' [''password'', ''confirmPassword''],
          Issue \<lparr>code = custom, path = [Key ''password'', Key ''confirmPassword''],
                 message = Some ''Passwords do not match''\<rparr>] ''confirmPassword'' = []"
  by code_simp

section \<open>The order of the checks\<close>

lemma set_update_subset: "set (AList.update k v al) \<subseteq> insert (k, v) (set al)"
  by (induction al) auto

lemma stringCheck_not_cross: "e \<in> set (stringCheck p s ch) \<Longrightarrow> \<not> isCrossFieldEvent e"
  by (cases ch) (auto split: if_splits)

lemma numberCheck_not_cross: "e \<in> set (numberCheck p x ch) \<Longrightarrow> \<not> isCrossFieldEvent e"
  by (cases ch) (auto split: if_splits)

lemma parseType_fieldLevel:
  "fieldLevel t \<Longrightarrow> e \<in> set (snd (parseType t p v)) \<Longrightarrow> \<not> isCrossFieldEvent e"
proof (induction t arbitrary: p v e)
  case (ZString checks)
  then show ?case
    by (cases v) (auto simp: invalidType_def Let_def dest: stringCheck_not_cross)
next
  case (ZNumber checks)
  then show ?case
    by (cases v) (auto simp: invalidType_def Let_def dest: numberCheck_not_cross)
next
  case ZBoolean
  then show ?case by (cases v) (auto simp: invalidType_def)
next
  case ZAny
  then show ?case by simp
next
  case (ZArray t)
  show ?case
  proof (cases v)
    case (Arr r xs)
    with ZArray.prems(2) obtain i x where "e \<in> set (snd (parseType t (p @ [Idx i]) x))"
      by (auto simp: Let_def)
    then show ?thesis using ZArray.IH ZArray.prems(1) by simp
  qed (use ZArray.prems in \<open>auto simp: invalidType_def\<close>)
next
  case (ZOptional t)
  then show ?case by (auto split: if_splits)
next
  case (ZEffects t check msg)
  obtain st es where r: "parseType t p v = (st, es)" by (cases "parseType t p v")
  obtain ces ok where c: "check v = (ces, ok)" by (cases "check v")
  have es: "\<And>e. e \<in> set es \<Longrightarrow> \<not> isCrossFieldEvent e"
    using ZEffects.IH [of _ p v] ZEffects.prems(1) r by simp
  have ces: "\<And>e. e \<in> set ces \<Longrightarrow> \<not> isCrossFieldEvent e"
    using ZEffects.prems(1) c by (auto dest: spec [of _ v])
  from ZEffects.prems(2) have "e \<in> set es \<or> e \<in> set ces \<or>
      e = Issue \<lparr>code = custom, path = p, message = Some msg\<rparr>"
    using r c by (cases st) (auto split: if_splits)
  then show ?case using es ces by auto
qed

lemma asyncRefine_not_cross:
  "e \<in> set (fst (asyncRefine nm validate ps val)) \<Longrightarrow> \<not> isCrossFieldEvent e"
  by (auto simp: asyncRefine_def split: if_splits jsval.splits option.splits)

lemma fieldLevel_optionalRequired:
  "fieldLevel t \<Longrightarrow> fieldLevel (optionalRequired f t test msg)"
  by (simp add: optionalRequired_def)

lemma fieldLevel_withAsync:
  "fieldLevel t \<Longrightarrow> fieldLevel (withAsync asyncReg f t)"
  by (auto simp: withAsync_def dest: asyncRefine_not_cross split: option.splits)

lemma fieldSchema_fieldLevel:
  "fieldSchema rt asyncReg f = Inr t \<Longrightarrow> fieldLevel t"
  by (auto simp: fieldSchema_def fieldLevel_optionalRequired fieldLevel_withAsync
           split: if_splits sum.splits)

lemma buildSchemaObj_fieldLevel:
  "buildSchemaObj rt asyncReg fs acc = Inr shp \<Longrightarrow> \<forall>(k, t) \<in> set acc. fieldLevel t \<Longrightarrow>
   \<forall>(k, t) \<in> set shp. fieldLevel t"
proof (induction fs arbitrary: acc)
  case Nil
  then show ?case by simp
next
  case (Cons f fs)
  from Cons.prems(1) obtain t where t: "fieldSchema rt asyncReg f = Inr t"
      and rest: "buildSchemaObj rt asyncReg fs (AList.update (name f) t acc) = Inr shp"
    by (auto split: sum.splits)
  have "\<forall>(k, t') \<in> set (AList.update (name f) t acc). fieldLevel t'"
    using set_update_subset [of "name f" t acc] Cons.prems(2) fieldSchema_fieldLevel [OF t]
    by auto
  then show ?case using Cons.IH [OF rest] by simp
qed

lemma parseShape_fieldLevel:
  assumes "\<forall>(k, t) \<in> set shp. fieldLevel t" and "e \<in> set (snd (parseShape shp values))"
  shows "\<not> isCrossFieldEvent e"
proof -
  from assms(2) obtain k t where "(k, t) \<in> set shp"
      "e \<in> set (snd (parseType t [Key k] (getProp values k)))"
    by (auto simp: parseShape_def Let_def)
  then show ?thesis using assms(1) parseType_fieldLevel by fastforce
qed

lemma everyValidation_events:
  "e \<in> set (fst (everyValidation registry vs data)) \<Longrightarrow> \<not> isAsyncEvent e"
  by (induction vs arbitrary: e) (auto split: option.splits if_splits prod.splits)

text \<open>
  Claim C7, as the code has it. The log of a validation is the log of the per-field
  stage followed by the rest. The per-field stage holds every call of an asynchronous
  validator and no cross-field event; after it, no asynchronous validator is called.
  So all per-field checks, the asynchronous ones among them, are finished before the
  first cross-field validator runs.
\<close>

theorem per_field_before_cross_field:
  assumes "validateValues rt asyncReg registry allFields values = Inr (st, es)"
  shows "\<exists>post. es = fieldEvents rt asyncReg allFields values @ post
           \<and> (\<forall>e \<in> set (fieldEvents rt asyncReg allFields values). \<not> isCrossFieldEvent e)
           \<and> (\<forall>e \<in> set post. \<not> isAsyncEvent e)"
proof -
  from assms obtain shp where shp: "buildSchemaObj rt asyncReg allFields [] = Inr shp"
    by (auto simp: validateValues_def zodSchema_def split: sum.splits)
  let ?cross = "crossFieldValidations allFields"
  let ?schema = "\<lparr>shape = shp,
                refinement =
                  (if length ?cross > 0 then
                     Some (everyValidation registry ?cross,
                           joinWith ''; '' (map x_errorMessage ?cross),
                           map Key (concat (map x_fields ?cross)))
                   else None)\<rparr>"
  have run: "parseAsync ?schema values = (st, es)"
    using assms shp by (simp add: validateValues_def zodSchema_def Let_def)
  have fe: "fieldEvents rt asyncReg allFields values = snd (parseShape shp values)"
    using shp by (simp add: fieldEvents_def)
  obtain st1 es1 where ps: "parseShape shp values = (st1, es1)"
    by (cases "parseShape shp values")
  have lvl: "\<forall>(k, t) \<in> set shp. fieldLevel t"
    using buildSchemaObj_fieldLevel [OF shp] by simp
  have pre: "\<forall>e \<in> set es1. \<not> isCrossFieldEvent e"
    using parseShape_fieldLevel [OF lvl, of _ "values"] ps by simp
  obtain ces ok where ev: "everyValidation registry ?cross (parsedObject shp values) = (ces, ok)"
    by (cases "everyValidation registry ?cross (parsedObject shp values)")
  have ces: "\<forall>e \<in> set ces. \<not> isAsyncEvent e"
    using everyValidation_events [of _ registry ?cross "parsedObject shp values"] ev by auto
  have "\<exists>post. es = es1 @ post \<and> (\<forall>e \<in> set post. \<not> isAsyncEvent e)"
    using run ps ev ces
    by (cases st1) (auto simp: parseAsync_def split: if_splits option.splits)
  then show ?thesis using fe ps pre by auto
qed

theorem per_field_before_cross_field_witness:
  "validateValues noRuntime asyncValidators (customValidators noRuntime) signupFields
       [''username'' \<mapsto> Str ''bob'', ''password'' \<mapsto> Str ''secret1'',
        ''confirmPassword'' \<mapsto> Str ''secret1'']
     = Inr (Valid,
         [AsyncCall ''isUsernameAvailable'' [''bob''],
          CustomCall ''passwordsMatch'' [''password'', ''confirmPassword'']])
   \<and> fieldEvents noRuntime asyncValidators signupFields
       [''username'' \<mapsto> Str ''bob'', ''password'' \<mapsto> Str ''secret1'',
        ''confirmPassword'' \<mapsto> Str ''secret1'']
     = [AsyncCall ''isUsernameAvailable'' [''bob'']]
   \<and> (\<exists>post.
         [AsyncCall ''isUsernameAvailable'' [''bob''],
          CustomCall ''passwordsMatch'' [''password'', ''confirmPassword'']]
         = fieldEvents noRuntime asyncValidators signupFields
             [''username'' \<mapsto> Str ''bob'', ''password'' \<mapsto> Str ''secret1'',
              ''confirmPassword'' \<mapsto> Str ''secret1''] @ post
         \<and> (\<forall>e \<in> set post. \<not> isAsyncEvent e))"
proof -
  have run: "validateValues noRuntime asyncValidators (customValidators noRuntime) signupFields
       [''username'' \<mapsto> Str ''bob'', ''password'' \<mapsto> Str ''secret1'',
        ''confirmPassword'' \<mapsto> Str ''secret1'']
     = Inr (Valid,
         [AsyncCall ''isUsernameAvailable'' [''bob''],
          CustomCall ''passwordsMatch'' [''password'', ''confirmPassword'']])"
    by code_simp
  have fe: "fieldEvents noRuntime asyncValidators signupFields
       [''username'' \<mapsto> Str ''bob'', ''password'' \<mapsto> Str ''secret1'',
        ''confirmPassword'' \<mapsto> Str ''secret1'']
     = [AsyncCall ''isUsernameAvailable'' [''bob'']]"
    by code_simp
  show ?thesis
    using run fe per_field_before_cross_field [OF run] by blast
qed

text \<open>
  In the sign-up form with the user name \<open>"admin"\<close>, the asynchronous validator is called
  and its failure is raised before the cross-field validator \<open>passwordsMatch\<close> is called:
  the cross-field checks are not finished before the asynchronous ones are awaited.
\<close>

theorem async_runs_before_cross_field_counterexample:
  "validateValues noRuntime asyncValidators (customValidators noRuntime) signupFields
       [''username'' \<mapsto> Str ''admin'', ''password'' \<mapsto> Str ''secret1'',
        ''confirmPassword'' \<mapsto> Str ''secret1'']
     = Inr (Dirty,
         [AsyncCall ''isUsernameAvailable'' [''admin''],
          Issue \<lparr>code = custom, path = [Key ''username''],
                 message = Some ''Validation failed for username''\<rparr>,
          CustomCall ''passwordsMatch'' [''password'', ''confirmPassword'']])"
  by code_simp

section \<open>Validators that the registries do not have\<close>

lemma withoutAbsent_name [simp]: "name (withoutAbsent asyncReg registry f) = name f"
  by (simp add: withoutAbsent_def split: option.splits)

lemma withoutAbsent_type [simp]: "type (withoutAbsent asyncReg registry f) = type f"
  by (simp add: withoutAbsent_def split: option.splits)

lemma withoutAbsent_required [simp]:
  "isRequired (withoutAbsent asyncReg registry f) = isRequired f"
  by (simp add: withoutAbsent_def isRequired_def split: option.splits)

lemma withoutAbsent_rules [simp]:
  "Option.bind (validation (withoutAbsent asyncReg registry f)) errorMessage
     = Option.bind (validation f) errorMessage"
  "Option.bind (validation (withoutAbsent asyncReg registry f)) minLength
     = Option.bind (validation f) minLength"
  "Option.bind (validation (withoutAbsent asyncReg registry f)) maxLength
     = Option.bind (validation f) maxLength"
  "Option.bind (validation (withoutAbsent asyncReg registry f)) min_value
     = Option.bind (validation f) min_value"
  "Option.bind (validation (withoutAbsent asyncReg registry f)) max_value
     = Option.bind (validation f) max_value"
  "Option.bind (validation (withoutAbsent asyncReg registry f)) pattern
     = Option.bind (validation f) pattern"
  by (simp_all add: withoutAbsent_def split: option.splits)

lemma withoutAbsent_message [simp]:
  "fieldErrorMessage (withoutAbsent asyncReg registry f) = fieldErrorMessage f"
  by (simp add: fieldErrorMessage_def)

lemma withoutAbsent_lengthChecks [simp]:
  "lengthChecks rt (withoutAbsent asyncReg registry f) = lengthChecks rt f"
  unfolding lengthChecks_def withoutAbsent_message withoutAbsent_rules by (rule refl)

lemma withoutAbsent_boundChecks [simp]:
  "boundChecks rt (withoutAbsent asyncReg registry f) = boundChecks rt f"
  unfolding boundChecks_def withoutAbsent_message withoutAbsent_rules by (rule refl)

lemma withoutAbsent_patternCheck [simp]:
  "patternCheck rt (withoutAbsent asyncReg registry f) = patternCheck rt f"
  unfolding patternCheck_def withoutAbsent_message withoutAbsent_rules by (rule refl)

lemma withoutAbsent_optionalRequired [simp]:
  "optionalRequired (withoutAbsent asyncReg registry f) t test msg = optionalRequired f t test msg"
  by (simp add: optionalRequired_def)

lemma withoutAbsent_async:
  "Option.bind (validation (withoutAbsent asyncReg registry f)) asyncValidator
     = (case Option.bind (validation f) asyncValidator of
          None \<Rightarrow> None
        | Some av \<Rightarrow> if asyncReg (av_name av) = None then None else Some av)"
  by (simp add: withoutAbsent_def split: option.splits)

lemma withoutAbsent_withAsync [simp]:
  "withAsync asyncReg (withoutAbsent asyncReg registry f) t = withAsync asyncReg f t"
  unfolding withAsync_def withoutAbsent_async withoutAbsent_message withoutAbsent_name
  by (simp split: option.splits)

lemma withoutAbsent_fieldSchema:
  "fieldSchema rt asyncReg (withoutAbsent asyncReg registry f) = fieldSchema rt asyncReg f"
  unfolding fieldSchema_def withoutAbsent_type withoutAbsent_patternCheck
    withoutAbsent_optionalRequired withoutAbsent_withAsync withoutAbsent_lengthChecks
    withoutAbsent_boundChecks
  by (rule refl)

lemma withoutAbsent_buildSchemaObj:
  "buildSchemaObj rt asyncReg (map (withoutAbsent asyncReg registry) fs) acc
     = buildSchemaObj rt asyncReg fs acc"
  by (induction fs arbitrary: acc) (simp_all add: withoutAbsent_fieldSchema split: sum.splits)

lemma withoutAbsent_cross:
  "crossFieldValidations (map (withoutAbsent asyncReg registry) fs)
     = filter (\<lambda>x. registry (x_validator x) \<noteq> None) (crossFieldValidations fs)"
proof (induction fs)
  case Nil
  then show ?case by (simp add: crossFieldValidations_def)
next
  case (Cons f fs)
  have "crossFieldValidations (f # fs) = crossFieldValidations [f] @ crossFieldValidations fs"
       "crossFieldValidations (withoutAbsent asyncReg registry f # map (withoutAbsent asyncReg registry) fs)
          = crossFieldValidations [withoutAbsent asyncReg registry f]
            @ crossFieldValidations (map (withoutAbsent asyncReg registry) fs)"
    by (simp_all add: crossFieldValidations_def)
  moreover have "crossFieldValidations [withoutAbsent asyncReg registry f]
      = filter (\<lambda>x. registry (x_validator x) \<noteq> None) (crossFieldValidations [f])"
    by (simp add: crossFieldValidations_def)
       (auto simp: withoutAbsent_def fieldErrorMessage_def split: option.splits)
  ultimately show ?case using Cons.IH by simp
qed

lemma everyValidation_filter:
  "snd (everyValidation registry (filter (\<lambda>x. registry (x_validator x) \<noteq> None) xs) data)
     = snd (everyValidation registry xs data)"
  by (induction xs) (auto split: option.splits prod.splits)

lemma everyValidation_passed_prefix:
  "snd (everyValidation registry xs data) = Some True \<Longrightarrow>
   everyValidation registry (xs @ ys) data
     = (fst (everyValidation registry xs data) @ fst (everyValidation registry ys data),
        snd (everyValidation registry ys data))"
  by (induction xs) (auto split: option.splits prod.splits if_splits)

lemma parseAsync_status:
  assumes "snd (chk (parsedObject shp values)) = snd (chk' (parsedObject shp values))"
  shows "fst (parseAsync \<lparr>shape = shp, refinement = Some (chk, msg, p)\<rparr> values)
       = fst (parseAsync \<lparr>shape = shp, refinement = Some (chk', msg', p')\<rparr> values)"
  using assms
  by (cases "parseShape shp values"; cases "fst (parseShape shp values)";
      cases "chk (parsedObject shp values)"; cases "chk' (parsedObject shp values)")
     (auto simp: parseAsync_def split: option.splits)

lemma parseAsync_status_none:
  assumes "snd (chk (parsedObject shp values)) = Some True"
  shows "fst (parseAsync \<lparr>shape = shp, refinement = Some (chk, msg, p)\<rparr> values)
       = fst (parseAsync \<lparr>shape = shp, refinement = None\<rparr> values)"
  using assms
  by (cases "parseShape shp values"; cases "fst (parseShape shp values)";
      cases "chk (parsedObject shp values)")
     (auto simp: parseAsync_def)

lemma everyValidation_nil_filter:
  "filter (\<lambda>x. registry (x_validator x) \<noteq> None) xs = [] \<Longrightarrow>
   snd (everyValidation registry xs data) = Some True"
  using everyValidation_filter [of registry xs data] by simp

lemma handleSubmit_status:
  "shape s = shape s' \<Longrightarrow> fst (parseAsync s values) = fst (parseAsync s' values) \<Longrightarrow>
   snd (handleSubmit s values) = snd (handleSubmit s' values)"
  by (cases "parseAsync s values"; cases "parseAsync s' values";
      cases "fst (parseAsync s values)") (auto simp: handleSubmit_def)

text \<open>
  A name for which a registry has nothing does not keep the form from being submitted:
  whether the compilation throws, and whether a submission goes through and with which
  data, is the same for a schema and for the schema without the declarations that use
  such names; the log of the per-field stage is the same too.
\<close>

lemma nothing_found_does_not_block:
  "map_sum id snd (submitForm rt asyncReg registry allFields values)
     = map_sum id snd
         (submitForm rt asyncReg registry (map (withoutAbsent asyncReg registry) allFields) values)
   \<and> fieldEvents rt asyncReg allFields values
       = fieldEvents rt asyncReg (map (withoutAbsent asyncReg registry) allFields) values"
proof (intro conjI)
  show "fieldEvents rt asyncReg allFields values
       = fieldEvents rt asyncReg (map (withoutAbsent asyncReg registry) allFields) values"
    by (simp add: fieldEvents_def withoutAbsent_buildSchemaObj)
next
  let ?fs' = "map (withoutAbsent asyncReg registry) allFields"
  let ?xs = "crossFieldValidations allFields"
  let ?xs' = "filter (\<lambda>x. registry (x_validator x) \<noteq> None) ?xs"
  show "map_sum id snd (submitForm rt asyncReg registry allFields values)
     = map_sum id snd (submitForm rt asyncReg registry ?fs' values)"
  proof (cases "buildSchemaObj rt asyncReg allFields []")
    case (Inl e)
    then show ?thesis
      by (simp add: submitForm_def zodSchema_def withoutAbsent_buildSchemaObj)
  next
    case (Inr shp)
    define r where "r = (if length ?xs > 0 then
                     Some (everyValidation registry ?xs,
                           joinWith ''; '' (map x_errorMessage ?xs),
                           map Key (concat (map x_fields ?xs)))
                   else None)"
    define r' where "r' = (if length ?xs' > 0 then
                     Some (everyValidation registry ?xs',
                           joinWith ''; '' (map x_errorMessage ?xs'),
                           map Key (concat (map x_fields ?xs')))
                   else None)"
    define s where "s = \<lparr>shape = shp, refinement = r\<rparr>"
    define s' where "s' = \<lparr>shape = shp, refinement = r'\<rparr>"
    have s: "zodSchema rt asyncReg registry allFields = Inr s" "shape s = shp"
      using Inr by (simp_all add: zodSchema_def Let_def s_def r_def)
    have s': "zodSchema rt asyncReg registry ?fs' = Inr s'" "shape s' = shp"
      using Inr
      by (simp_all add: zodSchema_def Let_def s'_def r'_def withoutAbsent_buildSchemaObj
            withoutAbsent_cross)
    have "fst (parseAsync s values) = fst (parseAsync s' values)"
    proof (cases "?xs = []")
      case True
      then show ?thesis by (simp add: s_def s'_def r_def r'_def)
    next
      case False
      show ?thesis
      proof (cases "?xs' = []")
        case True
        have "snd (everyValidation registry ?xs (parsedObject shp values)) = Some True"
          using True by (rule everyValidation_nil_filter)
        then show ?thesis
          using False True
                parseAsync_status_none [of "everyValidation registry ?xs" shp "values"]
          by (simp add: s_def s'_def r_def r'_def)
      next
        case nonempty: False
        show ?thesis
          using False nonempty
                parseAsync_status [of "everyValidation registry ?xs" shp "values"
                                      "everyValidation registry ?xs'"]
                everyValidation_filter [of registry ?xs "parsedObject shp values"]
          by (simp add: s_def s'_def r_def r'_def)
      qed
    qed
    then have "snd (handleSubmit s values) = snd (handleSubmit s' values)"
      using s(2) s'(2) by (intro handleSubmit_status) simp_all
    then show ?thesis using s(1) s'(1) by (simp add: submitForm_def)
  qed
qed

text \<open>
  The cross-field check warns about a name for which the registry has nothing whenever
  it reaches the validation, that is, when all validations before it have passed.
\<close>

lemma everyValidation_warns_when_reached:
  assumes "snd (everyValidation registry xs data) = Some True"
    and "registry (x_validator x) = None"
  shows "ConsoleWarn (''Validator '' @ [CHR 0x22] @ x_validator x @ [CHR 0x22] @ '' not found'')
           \<in> set (fst (everyValidation registry (xs @ x # ys) data))"
  using assms(2) by (simp add: everyValidation_passed_prefix [OF assms(1)] split: prod.splits)

text \<open>
  Claim C8, at an input where the code departs from it. Neither registry has anything
  for the two names of the form. The form with the asynchronous declaration alone is
  valid and its log is empty: the missing asynchronous validator is not reported. In the
  whole form the only entry of the log is the warning for the missing custom validator.
\<close>

theorem absent_async_validator_not_logged:
  "asyncValidators ''isEmailDomainValdi'' = None
   \<and> customValidators noRuntime ''emailsMatch'' = None
   \<and> validateValues noRuntime asyncValidators (customValidators noRuntime) (take 1 typoFields)
       [''email'' \<mapsto> Str ''ama@example.invalid'']
     = Inr (Valid, [])
   \<and> validateValues noRuntime asyncValidators (customValidators noRuntime) typoFields
       [''email'' \<mapsto> Str ''ama@example.invalid'', ''repeatEmail'' \<mapsto> Str ''other'']
     = Inr (Valid,
         [ConsoleWarn (''Validator '' @ [CHR 0x22] @ ''emailsMatch'' @ [CHR 0x22] @ '' not found'')])"
  by code_simp

text \<open>
  A name that the registries do not declare may still be found, on \<open>Object.prototype\<close>.
  The asynchronous refinement calls \<open>hasOwnProperty\<close>, which throws; the error is caught
  and logged and the field fails. The cross-field check calls \<open>valueOf\<close>, which throws;
  nothing catches it, and the parse throws.
\<close>

lemma inherited_async_name_fails_field:
  "validateValues noRuntime asyncValidators (customValidators noRuntime) (take 1 inheritedNameFields)
       [''email'' \<mapsto> Str ''ama@example.invalid'']
     = Inr (Dirty,
         [AsyncCall ''hasOwnProperty'' [''ama@example.invalid''],
          ConsoleError ''Error in async validator hasOwnProperty:'',
          Issue \<lparr>code = custom, path = [Key ''email''],
                 message = Some ''Validation failed for email''\<rparr>])"
  by code_simp

lemma inherited_custom_name_throws:
  "validateValues noRuntime asyncValidators (customValidators noRuntime) (drop 1 inheritedNameFields)
       [''email'' \<mapsto> Str ''ama@example.invalid'', ''repeatEmail'' \<mapsto> Str ''ama@example.invalid'']
     = Inr (Thrown, [CustomCall ''valueOf'' [''email'', ''repeatEmail'']])"
  by code_simp

end
